theory Spec2Isabelle
  imports Main
begin

section \<open>Hotel management application: the room registry of app.py\<close>

text \<open>
  The program keeps two module-level variables, the list \<open>rooms\<close> and the set
  \<open>booking_ids\<close>, and mutates them from six request handlers: three that read an HTML
  form (\<open>manage_rooms\<close>, \<open>checkin\<close>, \<open>checkout\<close>) and three that read a JSON body
  (\<open>api_rooms\<close>, \<open>api_checkin\<close>, \<open>api_checkout\<close>). Each handler is embedded as a
  function from the state and the request to a result and the next state.

  Conventions of the embedding:
  \<^item> Python \<open>int\<close> is \<open>int\<close>; a Python \<open>str\<close> is the list of the bytes of its UTF-8
    encoding, so two strings are equal exactly when their lists are;
  \<^item> the string methods \<open>upper\<close>, \<open>lower\<close> and \<open>strip\<close> are parameters of the handlers
    that call them (record \<open>str_methods\<close>): every theorem with a variable \<open>py\<close> holds
    for whatever these methods compute. The examples use \<open>ascii\<close>, which is what the
    methods do on ASCII strings;
  \<^item> Python \<open>float\<close> is \<open>pyfloat\<close>, the IEEE 754 double: a finite double is an integer
    number of units of 2^(-1074) with at most 53 significant bits, and arithmetic
    rounds to the nearest double, ties to even. The two zeros are one value, as they are
    for Python's comparisons;
  \<^item> a request field that the handler passes through the builtin \<open>int()\<close> or \<open>float()\<close>
    is given by the outcome of that conversion (type \<open>field\<close>), a form field read with
    \<open>.get\<close> by an option;
  \<^item> a JSON body gives \<open>room_number\<close> and \<open>booking_id\<close> as the integers the dataclasses
    declare (\<open>None\<close> for a key that is absent or null), and each text field as absent,
    a string, or a value that is not a string (type \<open>json_text\<close>).
\<close>

subsection \<open>Python floats\<close>

text \<open>\<open>Finite k\<close> is the number k * 2^(-1074). Every finite double is of this form,
  since 2^(-1074) is the smallest positive double; the doubles are the values
  \<open>Finite k\<close> with \<open>round_units k = k\<close> and the absolute value of k below 2^2098 (that is, below
  2^1024), the two infinities and NaN.\<close>

datatype pyfloat = Finite int | PosInf | NegInf | NaN

text \<open>\<open>int.bit_length()\<close>: the number of binary digits of a natural number.\<close>

fun bit_length :: "nat \<Rightarrow> nat" where
  "bit_length n = (if n = 0 then 0 else Suc (bit_length (n div 2)))"

declare bit_length.simps [simp del]

text \<open>The multiple of \<open>q\<close> nearest to \<open>x\<close>; of two equally near ones, the even multiple.\<close>

definition round_half_even :: "nat \<Rightarrow> nat \<Rightarrow> nat" where
  "round_half_even q x =
     (let d = x div q; r = x mod q
      in if 2 * r < q \<or> (2 * r = q \<and> even d) then d * q else (d + 1) * q)"

text \<open>Rounding to 53 significant bits: a number of at most 53 bits is kept, a longer one
  is rounded to a multiple of the power of two that leaves 53 bits.\<close>

definition round53 :: "nat \<Rightarrow> nat" where
  "round53 x =
     (if bit_length x \<le> 53 then x else round_half_even (2 ^ (bit_length x - 53)) x)"

definition round_units :: "int \<Rightarrow> int" where
  "round_units k = (if k < 0 then - int (round53 (nat (- k))) else int (round53 (nat k)))"

text \<open>The double with the integer value \<open>n\<close>, for n of absolute value at most 2^53 (where every integer is
  a double): \<open>200.0\<close> is \<open>whole 200\<close>.\<close>

definition whole :: "int \<Rightarrow> pyfloat" where
  "whole n = Finite (n * 2 ^ 1074)"

text \<open>\<open>float(n)\<close> for an \<open>int\<close>, which is also how \<open>n - x\<close> converts \<open>n\<close>: the nearest
  double, and \<open>OverflowError\<close> (here \<open>None\<close>) when that is 2^1024 or more.\<close>

definition float_of_int :: "int \<Rightarrow> pyfloat option" where
  "float_of_int n =
     (let k = round_units (n * 2 ^ 1074)
      in if 2 ^ 2098 \<le> \<bar>k\<bar> then None else Some (Finite k))"

text \<open>A rounded result of float arithmetic: out of range it is an infinity, and nothing is
  raised.\<close>

definition or_inf :: "int \<Rightarrow> pyfloat" where
  "or_inf k =
     (if 2 ^ 2098 \<le> k then PosInf else if k \<le> - (2 ^ 2098) then NegInf else Finite k)"

text \<open>\<open>x - y\<close> on two floats.\<close>

fun float_sub :: "pyfloat \<Rightarrow> pyfloat \<Rightarrow> pyfloat" where
  "float_sub NaN y = NaN"
| "float_sub x NaN = NaN"
| "float_sub PosInf PosInf = NaN"
| "float_sub NegInf NegInf = NaN"
| "float_sub PosInf y = PosInf"
| "float_sub NegInf y = NegInf"
| "float_sub (Finite a) PosInf = NegInf"
| "float_sub (Finite a) NegInf = PosInf"
| "float_sub (Finite a) (Finite b) = or_inf (round_units (a - b))"

text \<open>\<open>n - x\<close> for an \<open>int\<close> \<open>n\<close> and a float \<open>x\<close>: \<open>n\<close> is converted first.\<close>

definition int_sub_float :: "int \<Rightarrow> pyfloat \<Rightarrow> pyfloat option" where
  "int_sub_float n x =
     (case float_of_int n of None \<Rightarrow> None | Some f \<Rightarrow> Some (float_sub f x))"

text \<open>\<open>x < y\<close> on two floats, and \<open>x > n\<close> for a float and an \<open>int\<close>, which Python
  decides on the exact values.\<close>

fun float_lt :: "pyfloat \<Rightarrow> pyfloat \<Rightarrow> bool" where
  "float_lt NaN y = False"
| "float_lt x NaN = False"
| "float_lt PosInf y = False"
| "float_lt x NegInf = False"
| "float_lt NegInf y = True"
| "float_lt (Finite a) PosInf = True"
| "float_lt (Finite a) (Finite b) = (a < b)"

fun float_gt_int :: "pyfloat \<Rightarrow> int \<Rightarrow> bool" where
  "float_gt_int (Finite a) n = (n * 2 ^ 1074 < a)"
| "float_gt_int PosInf n = True"
| "float_gt_int NegInf n = False"
| "float_gt_int NaN n = False"

subsection \<open>models.py\<close>

text \<open>A text field holds \<open>Some\<close> string, or \<open>None\<close> when a JSON request put a value
  there that is not a string (\<open>null\<close>, a number, a list); nothing in the handlers tells
  such values apart.\<close>

record customer =
  name :: "string option"
  address :: "string option"
  phone :: "string option"
  from_date :: "string option"
  to_date :: "string option"
  payment_advance :: pyfloat
  booking_id :: "int option"

text \<open>The field \<open>size\<close> of the dataclass is \<open>size_attr\<close> here; \<open>status\<close> is 0 for an
  available room and 1 for a reserved one, as the comment in models.py says.\<close>

record room =
  room_number :: int
  ac :: "string option"
  comfort :: "string option"
  size_attr :: "string option"
  rent :: int
  status :: int
  cust :: "customer option"

subsection \<open>The in-memory storage\<close>

record state =
  rooms :: "room list"
  booking_ids :: "int option set"

definition init_state :: state where
  "init_state = \<lparr>rooms = [], booking_ids = {}\<rparr>"

subsection \<open>Python builtins used by the handlers\<close>

text \<open>The outcome of \<open>int(v)\<close> or \<open>float(v)\<close> on a request field: the key is not in the
  request, the builtin raises on the value (\<open>ValueError\<close> on a form string; \<open>ValueError\<close>,
  \<open>TypeError\<close> or \<open>OverflowError\<close> on a JSON value), or it returns a number.\<close>

datatype 'a field = Missing | Malformed | Given 'a

text \<open>\<open>conv(request.get(key, 0))\<close>: the default is the number 0, on which the conversion
  succeeds. \<open>None\<close> stands for the raised exception.\<close>

fun convert_default :: "'a field \<Rightarrow> 'a \<Rightarrow> 'a option" where
  "convert_default Missing d = Some d"
| "convert_default Malformed d = None"
| "convert_default (Given v) d = Some v"

text \<open>\<open>request.form.get(key, default)\<close> and \<open>request.args.get(key, default)\<close>: the value
  is a string when the key is there.\<close>

fun get_default :: "'a option \<Rightarrow> 'a \<Rightarrow> 'a" where
  "get_default None d = d"
| "get_default (Some v) d = v"

text \<open>A text field of a JSON body, and \<open>data.get(key, default)\<close> on it: the default for an
  absent key, the value itself for a present one, also when it is \<open>null\<close>.\<close>

datatype json_text = Absent | NotText | Text string

fun json_get :: "json_text \<Rightarrow> string \<Rightarrow> string option" where
  "json_get Absent d = Some d"
| "json_get NotText d = None"
| "json_get (Text v) d = Some v"

text \<open>The string methods the handlers call.\<close>

record str_methods =
  upper :: "string \<Rightarrow> string"
  lower :: "string \<Rightarrow> string"
  strip :: "string \<Rightarrow> string"

text \<open>What they do on ASCII strings: the 26 letters change case, and \<open>strip\<close> removes
  tab, line feed, vertical tab, form feed, carriage return, the four separators 0x1C to
  0x1F and the space from both ends.\<close>

definition upper_char :: "char \<Rightarrow> char" where
  "upper_char c =
     (case map_of (zip ''abcdefghijklmnopqrstuvwxyz'' ''ABCDEFGHIJKLMNOPQRSTUVWXYZ'') c of
        None \<Rightarrow> c | Some u \<Rightarrow> u)"

definition lower_char :: "char \<Rightarrow> char" where
  "lower_char c =
     (case map_of (zip ''ABCDEFGHIJKLMNOPQRSTUVWXYZ'' ''abcdefghijklmnopqrstuvwxyz'') c of
        None \<Rightarrow> c | Some l \<Rightarrow> l)"

definition is_space :: "char \<Rightarrow> bool" where
  "is_space c =
     (c \<in> set [CHR 0x09, CHR 0x0A, CHR 0x0B, CHR 0x0C, CHR 0x0D,
               CHR 0x1C, CHR 0x1D, CHR 0x1E, CHR 0x1F, CHR '' ''])"

definition ascii :: str_methods where
  "ascii =
     \<lparr>upper = map upper_char,
      lower = map lower_char,
      strip = (\<lambda>s. rev (dropWhile is_space (rev (dropWhile is_space s))))\<rparr>"

text \<open>Truth value of an \<open>Optional[int]\<close>: \<open>None\<close> and \<open>0\<close> are false.\<close>

fun truthy :: "int option \<Rightarrow> bool" where
  "truthy None = False"
| "truthy (Some n) = (n \<noteq> 0)"

subsection \<open>Outcomes of a request\<close>

text \<open>
  What a handler answers when it does not succeed. The constructors carry the names of the
  specification's error taxonomy where the code has one message for the case:
  \<^item> \<open>BadRequestKeyError\<close>: \<open>request.form[key]\<close> on a missing key (Flask answers 400);
  \<^item> \<open>RoomNumberNotInteger\<close>: "Room number must be an integer", "Invalid room number";
  \<^item> \<open>RoomNumberRequired\<close>: "room_number required" (400);
  \<^item> \<open>DuplicateRoomError\<close>: "Room number already exists. Choose a unique number.",
    "room exists" (400);
  \<^item> \<open>InvalidAttributeError\<close>: "Invalid room attributes";
  \<^item> \<open>RoomNotFoundError\<close>: "Room not found", "room not found" (404);
  \<^item> \<open>RoomOccupiedError\<close>: "Room is already booked", "already booked" (400);
  \<^item> \<open>BookingIdNotInteger\<close>: "Booking ID must be an integer";
  \<^item> \<open>DuplicateBookingIdError\<close>: "Booking ID already taken. Use a different ID",
    "booking id taken" (400);
  \<^item> \<open>RoomNotOccupiedError\<close>: "Room is not currently checked-in", "room not checked-in"
    (400), answered for a missing room as well as for an available one;
  \<^item> \<open>DaysNotInteger\<close>: "Number of days must be an integer";
  \<^item> \<open>UncaughtException\<close>: an exception no handler catches (500): \<open>int()\<close> or
    \<open>float()\<close> raised outside any \<open>try\<close>, \<open>bill - advance\<close> raised \<open>OverflowError\<close>,
    or \<open>.lower()\<close> was called on a name that is not a string.
\<close>

datatype error =
    BadRequestKeyError
  | RoomNumberNotInteger
  | RoomNumberRequired
  | DuplicateRoomError
  | InvalidAttributeError
  | RoomNotFoundError
  | RoomOccupiedError
  | BookingIdNotInteger
  | DuplicateBookingIdError
  | RoomNotOccupiedError
  | DaysNotInteger
  | UncaughtException

text \<open>The dictionary both checkout handlers answer with; the form handler adds the room
  number to it.\<close>

record bill_result =
  bill :: int
  advance :: pyfloat
  payable :: pyfloat

subsection \<open>Helper function\<close>

text \<open>\<open>find_room_index\<close>: the index of the first room with the number, or \<open>None\<close>.\<close>

fun find_room_index :: "room list \<Rightarrow> int \<Rightarrow> nat option" where
  "find_room_index [] rno = None"
| "find_room_index (r # rs) rno =
     (if room_number r = rno then Some 0 else map_option Suc (find_room_index rs rno))"

subsection \<open>UI routes\<close>

record room_form =
  rf_room_number :: "int field"
  rf_ac :: "string option"
  rf_comfort :: "string option"
  rf_size :: "string option"
  rf_rent :: "int field"

definition manage_rooms :: "str_methods \<Rightarrow> state \<Rightarrow> room_form \<Rightarrow> (error + unit) \<times> state" where
  "manage_rooms py s f =
     (case rf_room_number f of
        Missing \<Rightarrow> (Inl BadRequestKeyError, s)
      | Malformed \<Rightarrow> (Inl RoomNumberNotInteger, s)
      | Given rno \<Rightarrow>
          if find_room_index (rooms s) rno \<noteq> None then (Inl DuplicateRoomError, s)
          else
            let a = upper py (get_default (rf_ac f) ''N'');
                c = upper py (get_default (rf_comfort f) ''N'');
                z = upper py (get_default (rf_size f) ''S'')
            in (case convert_default (rf_rent f) 0 of
                  None \<Rightarrow> (Inl UncaughtException, s)
                | Some rnt \<Rightarrow>
                    if a \<notin> set [''A'', ''N''] \<or> c \<notin> set [''S'', ''N'']
                       \<or> z \<notin> set [''B'', ''S'']
                    then (Inl InvalidAttributeError, s)
                    else (Inr (),
                          s\<lparr>rooms := rooms s @
                             [\<lparr>room_number = rno, ac = Some a, comfort = Some c,
                               size_attr = Some z, rent = rnt, status = 0,
                               cust = None\<rparr>]\<rparr>)))"

record checkin_form =
  cf_room_number :: "int field"
  cf_booking_id :: "int field"
  cf_name :: "string option"
  cf_address :: "string option"
  cf_phone :: "string option"
  cf_from_date :: "string option"
  cf_to_date :: "string option"
  cf_advance :: "pyfloat field"

definition checkin :: "str_methods \<Rightarrow> state \<Rightarrow> checkin_form \<Rightarrow> (error + unit) \<times> state" where
  "checkin py s f =
     (case cf_room_number f of
        Missing \<Rightarrow> (Inl BadRequestKeyError, s)
      | Malformed \<Rightarrow> (Inl RoomNumberNotInteger, s)
      | Given rno \<Rightarrow>
          (case find_room_index (rooms s) rno of
             None \<Rightarrow> (Inl RoomNotFoundError, s)
           | Some idx \<Rightarrow>
               let r = rooms s ! idx in
               if status r = 1 then (Inl RoomOccupiedError, s)
               else
                 (case cf_booking_id f of
                    Missing \<Rightarrow> (Inl BadRequestKeyError, s)
                  | Malformed \<Rightarrow> (Inl BookingIdNotInteger, s)
                  | Given bid \<Rightarrow>
                      if Some bid \<in> booking_ids s then (Inl DuplicateBookingIdError, s)
                      else
                        let adv = (case convert_default (cf_advance f) (Finite 0) of
                                     None \<Rightarrow> Finite 0 | Some a \<Rightarrow> a);
                            c = \<lparr>name = Some (strip py (get_default (cf_name f) '''')),
                                 address = Some (strip py (get_default (cf_address f) '''')),
                                 phone = Some (strip py (get_default (cf_phone f) '''')),
                                 from_date = Some (strip py (get_default (cf_from_date f) '''')),
                                 to_date = Some (strip py (get_default (cf_to_date f) '''')),
                                 payment_advance = adv,
                                 booking_id = Some bid\<rparr>
                        in (Inr (),
                            s\<lparr>rooms := (rooms s)[idx := r\<lparr>cust := Some c, status := 1\<rparr>],
                              booking_ids := insert (Some bid) (booking_ids s)\<rparr>))))"

record checkout_form =
  of_room_number :: "int field"
  of_days :: "int field"

text \<open>The part the two checkout handlers share, from \<open>room = rooms[idx]\<close> on: the bill,
  then the release of the room. \<open>bill - advance\<close> is an \<open>int\<close> minus a \<open>float\<close>; when
  it raises, \<open>bill_of\<close> is \<open>None\<close> and the room is not released.\<close>

definition bill_of :: "room \<Rightarrow> int \<Rightarrow> bill_result option" where
  "bill_of r days =
     (let b = days * rent r;
          a = (case cust r of None \<Rightarrow> Finite 0 | Some c \<Rightarrow> payment_advance c)
      in case int_sub_float b a of
           None \<Rightarrow> None
         | Some p \<Rightarrow> Some \<lparr>bill = b, advance = a, payable = p\<rparr>)"

definition free_room :: "state \<Rightarrow> nat \<Rightarrow> state" where
  "free_room s idx =
     (let r = rooms s ! idx;
          ids = (case cust r of
                   None \<Rightarrow> booking_ids s
                 | Some c \<Rightarrow>
                     if truthy (booking_id c) then booking_ids s - {booking_id c}
                     else booking_ids s)
      in s\<lparr>rooms := (rooms s)[idx := r\<lparr>cust := None, status := 0\<rparr>],
           booking_ids := ids\<rparr>)"

definition checkout :: "state \<Rightarrow> checkout_form \<Rightarrow> (error + int \<times> bill_result) \<times> state" where
  "checkout s f =
     (case of_room_number f of
        Missing \<Rightarrow> (Inl BadRequestKeyError, s)
      | Malformed \<Rightarrow> (Inl RoomNumberNotInteger, s)
      | Given rno \<Rightarrow>
          (case find_room_index (rooms s) rno of
             None \<Rightarrow> (Inl RoomNotOccupiedError, s)
           | Some idx \<Rightarrow>
               if status (rooms s ! idx) = 0 then (Inl RoomNotOccupiedError, s)
               else
                 (case of_days f of
                    Missing \<Rightarrow> (Inl BadRequestKeyError, s)
                  | Malformed \<Rightarrow> (Inl DaysNotInteger, s)
                  | Given days \<Rightarrow>
                      (case bill_of (rooms s ! idx) days of
                         None \<Rightarrow> (Inl UncaughtException, s)
                       | Some b \<Rightarrow> (Inr (rno, b), free_room s idx)))))"

text \<open>\<open>guests\<close> and \<open>available\<close>: the rooms with status 1, and those with status 0.\<close>

definition guests :: "state \<Rightarrow> room list" where
  "guests s = filter (\<lambda>r. status r = 1) (rooms s)"

definition available :: "state \<Rightarrow> room list" where
  "available s = filter (\<lambda>r. status r = 0) (rooms s)"

subsection \<open>JSON API endpoints\<close>

record room_body =
  rb_room_number :: "int option"
  rb_ac :: json_text
  rb_comfort :: json_text
  rb_size :: json_text
  rb_rent :: "int field"

definition api_rooms :: "state \<Rightarrow> room_body \<Rightarrow> (error + unit) \<times> state" where
  "api_rooms s d =
     (case rb_room_number d of
        None \<Rightarrow> (Inl RoomNumberRequired, s)
      | Some rno \<Rightarrow>
          if find_room_index (rooms s) rno \<noteq> None then (Inl DuplicateRoomError, s)
          else
            (case convert_default (rb_rent d) 0 of
               None \<Rightarrow> (Inl UncaughtException, s)
             | Some rnt \<Rightarrow>
                 (Inr (),
                  s\<lparr>rooms := rooms s @
                     [\<lparr>room_number = rno,
                       ac = json_get (rb_ac d) ''N'',
                       comfort = json_get (rb_comfort d) ''N'',
                       size_attr = json_get (rb_size d) ''S'',
                       rent = rnt, status = 0, cust = None\<rparr>]\<rparr>)))"

record checkin_body =
  cb_room_number :: "int option"
  cb_booking_id :: "int option"
  cb_name :: json_text
  cb_address :: json_text
  cb_phone :: json_text
  cb_from_date :: json_text
  cb_to_date :: json_text
  cb_payment_advance :: "pyfloat field"

definition api_checkin :: "state \<Rightarrow> checkin_body \<Rightarrow> (error + unit) \<times> state" where
  "api_checkin s d =
     (case cb_room_number d of
        None \<Rightarrow> (Inl RoomNumberRequired, s)
      | Some rno \<Rightarrow>
          (case find_room_index (rooms s) rno of
             None \<Rightarrow> (Inl RoomNotFoundError, s)
           | Some idx \<Rightarrow>
               let r = rooms s ! idx in
               if status r = 1 then (Inl RoomOccupiedError, s)
               else if cb_booking_id d \<in> booking_ids s then (Inl DuplicateBookingIdError, s)
               else
                 (case convert_default (cb_payment_advance d) (Finite 0) of
                    None \<Rightarrow> (Inl UncaughtException, s)
                  | Some adv \<Rightarrow>
                      let c = \<lparr>name = json_get (cb_name d) '''',
                               address = json_get (cb_address d) '''',
                               phone = json_get (cb_phone d) '''',
                               from_date = json_get (cb_from_date d) '''',
                               to_date = json_get (cb_to_date d) '''',
                               payment_advance = adv,
                               booking_id = cb_booking_id d\<rparr>
                      in (Inr (),
                          s\<lparr>rooms := (rooms s)[idx := r\<lparr>cust := Some c, status := 1\<rparr>],
                            booking_ids := insert (cb_booking_id d) (booking_ids s)\<rparr>))))"

record checkout_body =
  ob_room_number :: "int option"
  ob_days :: "int field"

text \<open>\<open>api_checkout\<close> converts \<open>days\<close> before it looks the room up, and looks up
  whatever \<open>data.get("room_number")\<close> gave: \<open>None\<close> equals no room number.\<close>

definition api_checkout :: "state \<Rightarrow> checkout_body \<Rightarrow> (error + bill_result) \<times> state" where
  "api_checkout s d =
     (case convert_default (ob_days d) 0 of
        None \<Rightarrow> (Inl UncaughtException, s)
      | Some days \<Rightarrow>
          (case (case ob_room_number d of
                   None \<Rightarrow> None | Some rno \<Rightarrow> find_room_index (rooms s) rno) of
             None \<Rightarrow> (Inl RoomNotOccupiedError, s)
           | Some idx \<Rightarrow>
               if status (rooms s ! idx) = 0 then (Inl RoomNotOccupiedError, s)
               else
                 (case bill_of (rooms s ! idx) days of
                    None \<Rightarrow> (Inl UncaughtException, s)
                  | Some b \<Rightarrow> (Inr b, free_room s idx))))"

text \<open>The loop of \<open>api_search_customer\<close> over the rooms, \<open>nm\<close> being the stripped and
  lowered query: a room is tested for status 1, then for a customer, then
  \<open>r.cust.name.lower()\<close> is compared with \<open>nm\<close>; on a name that is not a string this
  call raises \<open>AttributeError\<close> and the request ends without a result.\<close>

fun search_loop ::
  "(string \<Rightarrow> string) \<Rightarrow> string \<Rightarrow> room list \<Rightarrow> (int \<times> customer) list
     \<Rightarrow> error + (int \<times> customer) list" where
  "search_loop lw nm [] results = Inr results"
| "search_loop lw nm (r # rs) results =
     (if status r = 1 then
        (case cust r of
           None \<Rightarrow> search_loop lw nm rs results
         | Some c \<Rightarrow>
             (case name c of
                None \<Rightarrow> Inl UncaughtException
              | Some n \<Rightarrow>
                  if lw n = nm then search_loop lw nm rs (results @ [(room_number r, c)])
                  else search_loop lw nm rs results))
      else search_loop lw nm rs results)"

text \<open>\<open>api_search_customer\<close>: the query is stripped and lowered; an empty result of that
  gives no result without a look at the rooms.\<close>

definition api_search_customer ::
  "str_methods \<Rightarrow> state \<Rightarrow> string option \<Rightarrow> error + (int \<times> customer) list" where
  "api_search_customer py s q =
     (let nm = lower py (strip py (get_default q ''''))
      in if nm = [] then Inr [] else search_loop (lower py) nm (rooms s) [])"

subsection \<open>Sequences of requests\<close>

datatype request =
    ManageRooms room_form
  | Checkin checkin_form
  | Checkout checkout_form
  | ApiRooms room_body
  | ApiCheckin checkin_body
  | ApiCheckout checkout_body

fun handle :: "str_methods \<Rightarrow> state \<Rightarrow> request \<Rightarrow> state" where
  "handle py s (ManageRooms f) = snd (manage_rooms py s f)"
| "handle py s (Checkin f) = snd (checkin py s f)"
| "handle py s (Checkout f) = snd (checkout s f)"
| "handle py s (ApiRooms d) = snd (api_rooms s d)"
| "handle py s (ApiCheckin d) = snd (api_checkin s d)"
| "handle py s (ApiCheckout d) = snd (api_checkout s d)"

text \<open>The state after a sequence of requests.\<close>

fun run :: "str_methods \<Rightarrow> state \<Rightarrow> request list \<Rightarrow> state" where
  "run py s [] = s"
| "run py s (q # qs) = run py (handle py s q) qs"

section \<open>Properties of the registry\<close>

subsection \<open>Predicates on states\<close>

text \<open>A room has a customer exactly when its status is 1.\<close>

definition occupancy_inv :: "state \<Rightarrow> bool" where
  "occupancy_inv s = (\<forall>r \<in> set (rooms s). (cust r \<noteq> None) = (status r = 1))"

text \<open>No two rooms of the list have the same number.\<close>

definition unique_numbers :: "state \<Rightarrow> bool" where
  "unique_numbers s = distinct (map room_number (rooms s))"

text \<open>The booking ids of the customers of the rooms with status 1, room by room, and the
  statement that \<open>booking_ids\<close> holds exactly these.\<close>

definition room_booking_ids :: "room \<Rightarrow> int option list" where
  "room_booking_ids r =
     (case cust r of None \<Rightarrow> [] | Some c \<Rightarrow> if status r = 1 then [booking_id c] else [])"

definition occupied_list :: "room list \<Rightarrow> int option list" where
  "occupied_list rs = concat (map room_booking_ids rs)"

definition occupied_booking_ids :: "state \<Rightarrow> int option set" where
  "occupied_booking_ids s = set (occupied_list (rooms s))"

definition booking_inv :: "state \<Rightarrow> bool" where
  "booking_inv s = (booking_ids s = occupied_booking_ids s)"

text \<open>A request whose booking id, if it is a check-in, is true as a Python value: an
  integer other than 0.\<close>

fun truthy_request :: "request \<Rightarrow> bool" where
  "truthy_request (Checkin f) = (cf_booking_id f \<noteq> Given 0)"
| "truthy_request (ApiCheckin d) = truthy (cb_booking_id d)"
| "truthy_request q = True"

text \<open>The invariant behind \<open>booking_inv\<close>: the ids of the occupied rooms are pairwise
  different and true, and every status is 0 or 1.\<close>

definition booking_state_inv :: "state \<Rightarrow> bool" where
  "booking_state_inv s =
     (booking_ids s = set (occupied_list (rooms s))
      \<and> distinct (occupied_list (rooms s))
      \<and> (\<forall>r \<in> set (rooms s). (status r = 0 \<or> status r = 1)
            \<and> (status r = 1 \<longrightarrow> (\<exists>c. cust r = Some c \<and> truthy (booking_id c)))))"

text \<open>The three attributes of a room, and the values models.py documents for them.\<close>

definition attributes :: "room \<Rightarrow> string option \<times> string option \<times> string option" where
  "attributes r = (ac r, comfort r, size_attr r)"



text \<open>Search as the specification words it, for a query \<open>q\<close>: the occupied rooms whose
  customer's name equals \<open>q\<close> when case is ignored, each with its customer. Two strings
  are equal when case is ignored if \<open>lower\<close> maps them to the same string.\<close>

definition name_matches :: "str_methods \<Rightarrow> string \<Rightarrow> room \<Rightarrow> bool" where
  "name_matches py q r =
     (status r = 1
      \<and> (case cust r of
            None \<Rightarrow> False
          | Some c \<Rightarrow> (case name c of None \<Rightarrow> False | Some n \<Rightarrow> lower py n = lower py q)))"

definition search_by_customer_name ::
  "str_methods \<Rightarrow> state \<Rightarrow> string \<Rightarrow> (int \<times> customer) list" where
  "search_by_customer_name py s q =
     map (\<lambda>r. (room_number r, the (cust r))) (filter (name_matches py q) (rooms s))"

text \<open>The name of every guest is a string. The form check-in always stores one; the JSON
  check-in stores what the body holds.\<close>

definition room_name_is_text :: "room \<Rightarrow> bool" where
  "room_name_is_text r =
     (case cust r of None \<Rightarrow> True | Some c \<Rightarrow> status r = 1 \<longrightarrow> name c \<noteq> None)"

definition names_are_text :: "state \<Rightarrow> bool" where
  "names_are_text s = list_all room_name_is_text (rooms s)"

text \<open>A request that, if it is a JSON check-in, carries a name that is a string or none
  at all.\<close>

fun text_name_request :: "request \<Rightarrow> bool" where
  "text_name_request (ApiCheckin d) = (cb_name d \<noteq> NotText)"
| "text_name_request q = True"

subsection \<open>Requests used in the examples\<close>

definition room_form_of :: "int \<Rightarrow> string \<Rightarrow> string \<Rightarrow> string \<Rightarrow> int \<Rightarrow> room_form" where
  "room_form_of n a c z rnt =
     \<lparr>rf_room_number = Given n, rf_ac = Some a, rf_comfort = Some c, rf_size = Some z,
      rf_rent = Given rnt\<rparr>"

definition room_body_of :: "int \<Rightarrow> string \<Rightarrow> string \<Rightarrow> string \<Rightarrow> int \<Rightarrow> room_body" where
  "room_body_of n a c z rnt =
     \<lparr>rb_room_number = Some n, rb_ac = Text a, rb_comfort = Text c, rb_size = Text z,
      rb_rent = Given rnt\<rparr>"

definition checkin_form_of :: "int \<Rightarrow> int \<Rightarrow> string \<Rightarrow> pyfloat field \<Rightarrow> checkin_form" where
  "checkin_form_of n b nm adv =
     \<lparr>cf_room_number = Given n, cf_booking_id = Given b, cf_name = Some nm,
      cf_address = Some ''1 Main St'', cf_phone = Some ''555'',
      cf_from_date = Some ''2024-01-01'', cf_to_date = Some ''2024-01-04'',
      cf_advance = adv\<rparr>"

definition checkin_body_of ::
  "int \<Rightarrow> int option \<Rightarrow> json_text \<Rightarrow> pyfloat field \<Rightarrow> checkin_body" where
  "checkin_body_of n b nm adv =
     \<lparr>cb_room_number = Some n, cb_booking_id = b, cb_name = nm,
      cb_address = Text ''1 Main St'', cb_phone = Text ''555'',
      cb_from_date = Text ''2024-01-01'', cb_to_date = Text ''2024-01-04'',
      cb_payment_advance = adv\<rparr>"

definition checkout_form_of :: "int \<Rightarrow> int \<Rightarrow> checkout_form" where
  "checkout_form_of n d = \<lparr>of_room_number = Given n, of_days = Given d\<rparr>"

definition checkout_body_of :: "int \<Rightarrow> int \<Rightarrow> checkout_body" where
  "checkout_body_of n d = \<lparr>ob_room_number = Some n, ob_days = Given d\<rparr>"

text \<open>The customer the example check-ins store, and the room the example creations add.\<close>

definition guest :: "string option \<Rightarrow> pyfloat \<Rightarrow> int option \<Rightarrow> customer" where
  "guest nm adv b =
     \<lparr>name = nm, address = Some ''1 Main St'', phone = Some ''555'',
      from_date = Some ''2024-01-01'', to_date = Some ''2024-01-04'',
      payment_advance = adv, booking_id = b\<rparr>"

definition free_room_of :: "int \<Rightarrow> string \<Rightarrow> string \<Rightarrow> string \<Rightarrow> int \<Rightarrow> room" where
  "free_room_of n a c z rnt =
     \<lparr>room_number = n, ac = Some a, comfort = Some c, size_attr = Some z, rent = rnt,
      status = 0, cust = None\<rparr>"

definition taken_room_of ::
  "int \<Rightarrow> string \<Rightarrow> string \<Rightarrow> string \<Rightarrow> int \<Rightarrow> customer \<Rightarrow> room" where
  "taken_room_of n a c z rnt g =
     \<lparr>room_number = n, ac = Some a, comfort = Some c, size_attr = Some z, rent = rnt,
      status = 1, cust = Some g\<rparr>"

lemmas handler_defs =
  manage_rooms_def checkin_def checkout_def api_rooms_def api_checkin_def api_checkout_def
  free_room_def init_state_def Let_def

lemmas string_defs =
  ascii_def upper_char_def lower_char_def is_space_def

lemmas example_defs =
  room_form_of_def room_body_of_def checkin_form_of_def checkin_body_of_def
  checkout_form_of_def checkout_body_of_def guest_def free_room_of_def taken_room_of_def

subsection \<open>Facts about rounding and float arithmetic\<close>

lemma bit_length_0 [simp]: "bit_length 0 = 0"
  by (simp add: bit_length.simps)

lemma bit_length_pos: "0 < n \<Longrightarrow> bit_length n = Suc (bit_length (n div 2))"
  by (simp add: bit_length.simps [of n])

lemma bit_length_bounds:
  "0 < n \<Longrightarrow> 2 ^ (bit_length n - 1) \<le> n \<and> n < 2 ^ bit_length n"
proof (induction n rule: less_induct)
  case (less n)
  show ?case
  proof (cases "n div 2 = 0")
    case True
    with less.prems have "n = 1" by auto
    then show ?thesis by (simp add: bit_length_pos)
  next
    case False
    then have h: "0 < n div 2" by simp
    have "n div 2 < n" using less.prems by simp
    from less.IH [OF this h]
    have lo: "2 ^ (bit_length (n div 2) - 1) \<le> n div 2"
      and hi: "n div 2 < 2 ^ bit_length (n div 2)" by simp_all
    obtain k where k: "bit_length (n div 2) = Suc k"
      using bit_length_pos [OF h] by simp
    have bl: "bit_length n = Suc (Suc k)"
      using bit_length_pos [OF less.prems] k by simp
    from lo k have "2 ^ k \<le> n div 2" by simp
    then have 1: "2 * 2 ^ k \<le> n" by linarith
    from hi k have "n div 2 < 2 * 2 ^ k" by simp
    then have 2: "n < 2 * (2 * 2 ^ k)" by linarith
    from 1 2 show ?thesis unfolding bl by simp
  qed
qed

lemma bit_length_unique:
  assumes lo: "2 ^ (L - 1) \<le> n" and hi: "n < 2 ^ L" and L: "0 < L"
  shows "bit_length n = L"
proof -
  have pos: "0 < n"
    using lo by (cases "n = 0") simp_all
  from bit_length_bounds [OF pos]
  have blo: "2 ^ (bit_length n - 1) \<le> n" and bhi: "n < 2 ^ bit_length n" by simp_all
  have "(2::nat) ^ (L - 1) < 2 ^ bit_length n"
    using lo bhi by (rule le_less_trans)
  then have a: "L - 1 < bit_length n"
    by (simp add: power_strict_increasing_iff)
  have "(2::nat) ^ (bit_length n - 1) < 2 ^ L"
    using blo hi by (rule le_less_trans)
  then have b: "bit_length n - 1 < L"
    by (simp add: power_strict_increasing_iff)
  from a b L show ?thesis by linarith
qed

lemma bit_length_scale:
  assumes "0 < n"
  shows "bit_length (n * 2 ^ e) = bit_length n + e"
proof -
  from bit_length_bounds [OF assms]
  have blo: "2 ^ (bit_length n - 1) \<le> n" and bhi: "n < 2 ^ bit_length n" by simp_all
  obtain k where k: "bit_length n = Suc k"
    using bit_length_pos [OF assms] by simp
  have "2 ^ (k + e) = 2 ^ k * (2::nat) ^ e"
    by (simp add: power_add)
  also have "\<dots> \<le> n * 2 ^ e"
    using blo k by simp
  finally have lo: "2 ^ (bit_length n + e - 1) \<le> n * 2 ^ e"
    using k by simp
  have "n * 2 ^ e < 2 ^ bit_length n * 2 ^ e"
    using bhi by simp
  then have hi: "n * 2 ^ e < 2 ^ (bit_length n + e)"
    by (simp add: power_add)
  from lo hi show ?thesis
    by (rule bit_length_unique) (simp add: k)
qed

lemma round_half_even_exact: "0 < q \<Longrightarrow> q dvd x \<Longrightarrow> round_half_even q x = x"
  by (auto simp: round_half_even_def Let_def)

lemma round_half_even_ge:
  assumes q: "0 < q" and d: "q dvd y" and le: "y \<le> x"
  shows "y \<le> round_half_even q x"
proof -
  from d obtain k where k: "y = k * q" by (auto simp: dvd_def mult.commute)
  from le have "y div q \<le> x div q" by (rule div_le_mono)
  with k q have "k \<le> x div q" by simp
  then have "k * q \<le> (x div q) * q" by simp
  with k have 1: "y \<le> (x div q) * q" by simp
  have "(x div q) * q \<le> round_half_even q x"
    by (simp add: round_half_even_def Let_def)
  with 1 show ?thesis by (rule order_trans)
qed

lemma round53_zero [simp]: "round53 0 = 0"
  by (simp add: round53_def)

lemma round53_ge_power:
  assumes "2 ^ L \<le> x"
  shows "2 ^ L \<le> round53 x"
proof (cases "bit_length x \<le> 53")
  case True
  with assms show ?thesis by (simp add: round53_def)
next
  case False
  have pos: "0 < x"
    using assms by (cases "x = 0") simp_all
  from bit_length_bounds [OF pos]
  have blo: "2 ^ (bit_length x - 1) \<le> x" and bhi: "x < 2 ^ bit_length x" by simp_all
  have "(2::nat) ^ L < 2 ^ bit_length x"
    using assms bhi by (rule le_less_trans)
  then have "L < bit_length x"
    by (simp add: power_strict_increasing_iff)
  then have "(2::nat) ^ L \<le> 2 ^ (bit_length x - 1)"
    by (intro power_increasing) simp_all
  also have "\<dots> \<le> round_half_even (2 ^ (bit_length x - 53)) x"
  proof (rule round_half_even_ge)
    show "(2::nat) ^ (bit_length x - 53) dvd 2 ^ (bit_length x - 1)"
      by (rule le_imp_power_dvd) simp
    show "0 < (2::nat) ^ (bit_length x - 53)" by simp
    show "2 ^ (bit_length x - 1) \<le> x" by (rule blo)
  qed
  finally show ?thesis
    using False by (simp add: round53_def)
qed

lemma round53_pos: "0 < x \<Longrightarrow> 0 < round53 x"
  using round53_ge_power [of 0 x] by simp

lemma round53_exact:
  assumes "m < 2 ^ 53"
  shows "round53 (m * 2 ^ e) = m * 2 ^ e"
proof (cases "m = 0")
  case True
  then show ?thesis by simp
next
  case False
  then have pos: "0 < m" by simp
  from bit_length_bounds [OF pos] have "2 ^ (bit_length m - 1) \<le> m" by simp
  from this assms have "2 ^ (bit_length m - 1) < (2::nat) ^ 53"
    by (rule le_less_trans)
  then have "bit_length m - 1 < 53"
    by (rule power_less_imp_less_exp [rotated]) simp
  then have m53: "bit_length m \<le> 53" by simp
  show ?thesis
  proof (cases "bit_length (m * 2 ^ e) \<le> 53")
    case True
    then show ?thesis by (simp add: round53_def)
  next
    case False
    have "bit_length (m * 2 ^ e) - 53 \<le> e"
      using m53 by (simp add: bit_length_scale [OF pos])
    then have "(2::nat) ^ (bit_length (m * 2 ^ e) - 53) dvd 2 ^ e"
      by (rule le_imp_power_dvd)
    then have "(2::nat) ^ (bit_length (m * 2 ^ e) - 53) dvd m * 2 ^ e"
      by (rule dvd_mult)
    with False show ?thesis
      by (simp add: round53_def round_half_even_exact)
  qed
qed

lemma round_units_neg: "(round_units k < 0) = (k < 0)"
proof (cases "k < 0")
  case True
  then have "0 < nat (- k)" by simp
  then have "0 < round53 (nat (- k))" by (rule round53_pos)
  with True show ?thesis by (simp add: round_units_def)
next
  case False
  then show ?thesis by (simp add: round_units_def)
qed

lemma nat_scale: "0 \<le> m \<Longrightarrow> nat (m * 2 ^ e) = nat m * 2 ^ e"
  by (simp add: nat_mult_distrib nat_power_eq)

lemma round_units_exact_nonneg:
  assumes "0 \<le> m" and "m < 2 ^ 53"
  shows "round_units (m * 2 ^ e) = m * 2 ^ e"
proof -
  from assms have "nat m < nat (2 ^ 53)"
    by (simp only: nat_mono_iff zero_less_power zero_less_numeral)
  then have "nat m < 2 ^ 53"
    by (simp only: nat_power_eq zero_le_numeral nat_numeral)
  then have r: "round53 (nat m * 2 ^ e) = nat m * 2 ^ e"
    by (rule round53_exact)
  from assms(1) have nn: "\<not> m * 2 ^ e < 0"
    by (simp add: mult_less_0_iff)
  have "round_units (m * 2 ^ e) = int (round53 (nat (m * 2 ^ e)))"
    using nn by (simp only: round_units_def if_False)
  also have "\<dots> = int (nat m * 2 ^ e)"
    by (simp only: nat_scale [OF assms(1)] r)
  also have "\<dots> = m * 2 ^ e"
    using assms(1) by simp
  finally show ?thesis .
qed

lemma round_units_minus: "round_units (- k) = - round_units k"
proof -
  consider "k < 0" | "k = 0" | "0 < k" by linarith
  then show ?thesis
  proof cases
    case 1
    then show ?thesis by (simp add: round_units_def)
  next
    case 2
    then show ?thesis by (simp add: round_units_def)
  next
    case 3
    then show ?thesis by (simp add: round_units_def)
  qed
qed

lemma round_units_exact:
  assumes "- (2 ^ 53) < m" and "m < 2 ^ 53"
  shows "round_units (m * 2 ^ e) = m * 2 ^ e"
proof (cases "0 \<le> m")
  case True
  from this assms(2) show ?thesis by (rule round_units_exact_nonneg)
next
  case False
  then have "0 \<le> - m" by simp
  moreover from assms(1) have "- m < 2 ^ 53" by linarith
  ultimately have "round_units (- m * 2 ^ e) = - m * 2 ^ e"
    by (rule round_units_exact_nonneg)
  then have "round_units (- (m * 2 ^ e)) = - (m * 2 ^ e)"
    by (simp only: mult_minus_left)
  then show ?thesis
    by (simp only: round_units_minus neg_equal_iff_equal)
qed

lemma round_units_ge_power:
  assumes "2 ^ L \<le> k"
  shows "2 ^ L \<le> round_units k"
proof -
  have pos: "0 < k"
    using assms by (smt (verit) zero_less_power)
  then have "(2::nat) ^ L \<le> nat k"
    using assms by (simp add: le_nat_iff)
  then have "(2::nat) ^ L \<le> round53 (nat k)"
    by (rule round53_ge_power)
  then have "int (2 ^ L) \<le> int (round53 (nat k))"
    by (simp only: of_nat_le_iff)
  with pos show ?thesis
    by (simp add: round_units_def)
qed

lemma round_half_even_scale:
  assumes c: "0 < c"
  shows "round_half_even (q * c) (x * c) = round_half_even q x * c"
proof -
  have d: "(x * c) div (q * c) = x div q"
    using c by simp
  have m: "(x * c) mod (q * c) = (x mod q) * c"
    using c by (simp add: mult_mod_left mult.commute)
  have 1: "(2 * (x mod q * c) < q * c) = (2 * (x mod q) < q)"
  proof -
    have "2 * (x mod q * c) = (2 * (x mod q)) * c" by simp
    then show ?thesis using c by (simp only: mult_less_cancel2) simp
  qed
  have 2: "(2 * (x mod q * c) = q * c) = (2 * (x mod q) = q)"
  proof -
    have "2 * (x mod q * c) = (2 * (x mod q)) * c" by simp
    then show ?thesis using c by (simp only: mult_cancel2) simp
  qed
  show ?thesis
    unfolding round_half_even_def Let_def d m 1 2
    by (simp add: algebra_simps)
qed

lemma round53_scale: "round53 (x * 2 ^ e) = round53 x * 2 ^ e"
proof (cases "x = 0")
  case True
  then show ?thesis by simp
next
  case False
  then have pos: "0 < x" by simp
  show ?thesis
  proof (cases "bit_length x \<le> 53")
    case True
    from bit_length_bounds [OF pos] have "x < 2 ^ bit_length x" by simp
    also have "\<dots> \<le> 2 ^ 53"
      using True by (intro power_increasing) simp_all
    finally have "x < 2 ^ 53" .
    then have "round53 (x * 2 ^ e) = x * 2 ^ e"
      by (rule round53_exact)
    moreover from True have "round53 x = x"
      by (simp only: round53_def if_True)
    ultimately show ?thesis by simp
  next
    case False
    then have p: "2 ^ (bit_length x + e - 53) = 2 ^ (bit_length x - 53) * (2::nat) ^ e"
      by (simp flip: power_add)
    from False have f: "\<not> bit_length x + e \<le> 53" by simp
    show ?thesis
      unfolding round53_def bit_length_scale [OF pos] p
      using False f by (simp only: if_False round_half_even_scale zero_less_power zero_less_numeral)
  qed
qed

lemma round_units_scale: "round_units (k * 2 ^ e) = round_units k * 2 ^ e"
proof (cases "k < 0")
  case True
  then have n: "k * 2 ^ e < 0" by (simp add: mult_less_0_iff)
  from True have "nat (- (k * 2 ^ e)) = nat (- k) * 2 ^ e"
    using nat_scale [of "- k" e] by simp
  with True n show ?thesis
    by (simp add: round_units_def round53_scale)
next
  case False
  then have n: "\<not> k * 2 ^ e < 0" by (simp add: mult_less_0_iff)
  from False have "nat (k * 2 ^ e) = nat k * 2 ^ e"
    using nat_scale [of k e] by simp
  with False n show ?thesis
    by (simp add: round_units_def round53_scale)
qed

lemma bit_length_54: "bit_length 9007199254740995 = 54"
  by (rule bit_length_unique) simp_all

lemma round53_tie: "round53 9007199254740995 = 9007199254740996"
  by (simp add: round53_def bit_length_54 round_half_even_def Let_def)

lemma round_units_tie: "round_units 9007199254740995 = 9007199254740996"
  by (simp add: round_units_def round53_tie)

lemma pow_bound: "(2::int) ^ 53 * 2 ^ 1074 < 2 ^ 2098"
proof -
  have "(2::int) ^ 53 * 2 ^ 1074 = 2 ^ 1127" by (simp flip: power_add)
  also have "\<dots> < 2 ^ 2098" by (rule power_strict_increasing) simp_all
  finally show ?thesis .
qed

lemma whole_in_range:
  assumes "\<bar>n::int\<bar> \<le> 2 ^ 53"
  shows "\<bar>n * 2 ^ 1074\<bar> < 2 ^ 2098"
proof -
  have "\<bar>n * 2 ^ 1074\<bar> = \<bar>n\<bar> * 2 ^ 1074" by (simp add: abs_mult)
  also have "\<dots> \<le> 2 ^ 53 * 2 ^ 1074"
    using assms by (intro mult_right_mono) simp_all
  also note pow_bound
  finally show ?thesis .
qed

lemma round_units_whole:
  assumes "\<bar>n\<bar> \<le> 2 ^ 53"
  shows "round_units (n * 2 ^ 1074) = n * 2 ^ 1074"
proof -
  consider "n = 2 ^ 53" | "n = - (2 ^ 53)" | "- (2 ^ 53) < n \<and> n < 2 ^ 53"
    using assms by linarith
  then show ?thesis
  proof cases
    case 1
    have "round_units (1 * 2 ^ (53 + 1074)) = 1 * 2 ^ (53 + 1074)"
      by (rule round_units_exact) simp_all
    then show ?thesis
      unfolding 1 by (simp only: power_add mult_1)
  next
    case 2
    have "round_units (1 * 2 ^ (53 + 1074)) = 1 * 2 ^ (53 + 1074)"
      by (rule round_units_exact) simp_all
    then have "round_units (- (2 ^ 53 * 2 ^ 1074)) = - (2 ^ 53 * 2 ^ 1074)"
      by (simp only: power_add mult_1 round_units_minus)
    then show ?thesis
      unfolding 2 by (simp only: mult_minus_left)
  next
    case 3
    then show ?thesis by (intro round_units_exact) simp_all
  qed
qed

lemma float_of_int_whole: "\<bar>n\<bar> \<le> 2 ^ 53 \<Longrightarrow> float_of_int n = Some (whole n)"
  using whole_in_range [of n]
  by (simp only: float_of_int_def Let_def round_units_whole whole_def) simp

lemma float_sub_whole:
  assumes "\<bar>a - b\<bar> \<le> 2 ^ 53"
  shows "float_sub (whole a) (whole b) = whole (a - b)"
proof -
  have d: "a * 2 ^ 1074 - b * 2 ^ 1074 = (a - b) * (2::int) ^ 1074"
    by (simp only: left_diff_distrib)
  from whole_in_range [OF assms] have "\<not> 2 ^ 2098 \<le> (a - b) * (2::int) ^ 1074"
    and "\<not> (a - b) * (2::int) ^ 1074 \<le> - (2 ^ 2098)"
    by (simp_all only: abs_less_iff) linarith+
  then show ?thesis
    by (simp only: whole_def float_sub.simps d round_units_whole [OF assms] or_inf_def if_False)
qed

lemma whole_eq [simp]: "(whole a = whole b) = (a = b)"
  by (simp add: whole_def)

lemma whole_0: "whole 0 = Finite 0"
  by (simp add: whole_def)

lemma or_inf_neg: "float_lt (or_inf k) (Finite 0) = (k < 0)"
proof -
  have p: "(0::int) < 2 ^ 2098" by simp
  consider "2 ^ 2098 \<le> k" | "k \<le> - (2 ^ 2098)" | "\<not> 2 ^ 2098 \<le> k \<and> \<not> k \<le> - (2 ^ 2098)"
    by blast
  then show ?thesis
  proof cases
    case 1
    with p have "\<not> k < 0" by linarith
    with 1 show ?thesis by (simp only: or_inf_def if_True float_lt.simps)
  next
    case 2
    with p have k: "k < 0" and n: "\<not> 2 ^ 2098 \<le> k" by linarith+
    show ?thesis
      unfolding or_inf_def using 2 k n by (simp only: if_True if_False float_lt.simps)
  next
    case 3
    then show ?thesis by (simp only: or_inf_def if_False float_lt.simps)
  qed
qed

lemma float_sub_neg: "float_lt (float_sub x y) (Finite 0) = float_lt x y"
proof (cases x)
  case (Finite a)
  then show ?thesis
    by (cases y) (simp_all add: or_inf_neg round_units_neg)
next
  case PosInf
  then show ?thesis by (cases y) simp_all
next
  case NegInf
  then show ?thesis by (cases y) simp_all
next
  case NaN
  then show ?thesis by simp
qed

lemma float_gt_int_whole: "float_gt_int x n = float_lt (whole n) x"
  by (cases x) (simp_all add: whole_def)

lemma int_sub_float_whole:
  "\<bar>n\<bar> \<le> 2 ^ 53 \<Longrightarrow> int_sub_float n x = Some (float_sub (whole n) x)"
  by (simp only: int_sub_float_def float_of_int_whole option.case)

lemma float_of_int_overflow:
  assumes "2 ^ 1024 \<le> n"
  shows "float_of_int n = None"
proof -
  have "(2::int) ^ 2098 = 2 ^ 1024 * 2 ^ 1074"
    by (simp flip: power_add)
  also have "\<dots> \<le> n * 2 ^ 1074"
    using assms by (intro mult_right_mono) simp_all
  finally have "2 ^ 2098 \<le> round_units (n * 2 ^ 1074)"
    by (rule round_units_ge_power)
  then have "2 ^ 2098 \<le> \<bar>round_units (n * 2 ^ 1074)\<bar>"
    by (rule order_trans) (rule abs_ge_self)
  then show ?thesis
    by (simp only: float_of_int_def Let_def if_True)
qed

lemma float_of_int_tie: "float_of_int 9007199254740995 = Some (whole 9007199254740996)"
proof -
  have r: "round_units (9007199254740995 * 2 ^ 1074) = 9007199254740996 * 2 ^ 1074"
    by (simp only: round_units_scale round_units_tie)
  have "\<bar>9007199254740996 * (2::int) ^ 1074\<bar> < 2 ^ 1128"
  proof -
    have "\<bar>9007199254740996 * (2::int) ^ 1074\<bar> = 9007199254740996 * 2 ^ 1074"
      by (simp only: abs_mult) simp
    also have "\<dots> < 2 ^ 54 * 2 ^ 1074"
      by (intro mult_strict_right_mono) simp_all
    also have "\<dots> = 2 ^ 1128"
      by (simp flip: power_add)
    finally show ?thesis .
  qed
  also have "(2::int) ^ 1128 \<le> 2 ^ 2098"
    by (rule power_increasing) simp_all
  finally have "\<not> 2 ^ 2098 \<le> \<bar>9007199254740996 * (2::int) ^ 1074\<bar>"
    by (simp only: not_le)
  then show ?thesis
    by (simp only: float_of_int_def Let_def r whole_def if_False)
qed

lemmas float_eval = bill_of_def int_sub_float_whole float_sub_whole

subsection \<open>Facts about the helper function and list updates\<close>

lemma find_room_index_None: "(find_room_index rs n = None) = (n \<notin> room_number ` set rs)"
  by (induction rs) auto

lemma find_room_index_Some:
  "find_room_index rs n = Some i \<Longrightarrow> i < length rs \<and> room_number (rs ! i) = n"
proof (induction rs arbitrary: i)
  case Nil
  then show ?case by simp
next
  case (Cons r rs)
  then show ?case by (cases i) (auto split: if_splits)
qed

lemma find_room_index_numbers:
  "map room_number rs = map room_number rs' \<Longrightarrow> find_room_index rs n = find_room_index rs' n"
proof (induction rs arbitrary: rs')
  case Nil
  then show ?case by simp
next
  case (Cons r rs)
  then obtain r' rs'' where "rs' = r' # rs''" by (cases rs') auto
  with Cons show ?case by auto
qed

lemma map_update_same: "(map g xs)[i := g (xs ! i)] = map g xs"
  by (cases "i < length xs") (simp_all add: list_update_same_conv list_update_beyond)

lemma find_room_index_member:
  "distinct (map room_number rs) \<Longrightarrow> r \<in> set rs \<Longrightarrow>
   \<exists>i. find_room_index rs (room_number r) = Some i \<and> rs ! i = r"
proof (induction rs)
  case Nil
  then show ?case by simp
next
  case (Cons x xs)
  show ?case
  proof (cases "room_number x = room_number r")
    case True
    with Cons.prems have "x = r" by (auto simp: image_iff)
    with True show ?thesis by simp
  next
    case False
    with Cons obtain i where "find_room_index xs (room_number r) = Some i" "xs ! i = r"
      by auto
    with False show ?thesis by simp
  qed
qed

subsection \<open>The occupancy invariant\<close>

lemma occupancy_update:
  assumes "occupancy_inv s" and "(cust x \<noteq> None) = (status x = 1)"
  shows "occupancy_inv (s\<lparr>rooms := (rooms s)[i := x], booking_ids := b\<rparr>)"
proof -
  have "set ((rooms s)[i := x]) \<subseteq> insert x (set (rooms s))"
    by (rule set_update_subset_insert)
  with assms show ?thesis
    unfolding occupancy_inv_def by auto
qed

lemma manage_rooms_occupancy: "occupancy_inv s \<Longrightarrow> occupancy_inv (snd (manage_rooms py s f))"
  by (auto simp: manage_rooms_def occupancy_inv_def Let_def split: field.splits option.splits)

lemma api_rooms_occupancy: "occupancy_inv s \<Longrightarrow> occupancy_inv (snd (api_rooms s d))"
  by (auto simp: api_rooms_def occupancy_inv_def Let_def split: field.splits option.splits)

lemma checkin_occupancy: "occupancy_inv s \<Longrightarrow> occupancy_inv (snd (checkin py s f))"
  by (simp add: checkin_def Let_def occupancy_update split: field.splits option.splits)

lemma api_checkin_occupancy: "occupancy_inv s \<Longrightarrow> occupancy_inv (snd (api_checkin s d))"
  by (simp add: api_checkin_def Let_def occupancy_update split: field.splits option.splits)

lemma free_room_occupancy: "occupancy_inv s \<Longrightarrow> occupancy_inv (free_room s idx)"
  by (simp add: free_room_def Let_def occupancy_update)

lemma checkout_occupancy: "occupancy_inv s \<Longrightarrow> occupancy_inv (snd (checkout s f))"
  by (auto simp: checkout_def free_room_occupancy split: field.splits option.splits)

lemma api_checkout_occupancy: "occupancy_inv s \<Longrightarrow> occupancy_inv (snd (api_checkout s d))"
  by (auto simp: api_checkout_def free_room_occupancy split: field.splits option.splits)

lemma handle_occupancy: "occupancy_inv s \<Longrightarrow> occupancy_inv (handle py s q)"
  by (cases q) (simp_all add: manage_rooms_occupancy checkin_occupancy checkout_occupancy
      api_rooms_occupancy api_checkin_occupancy api_checkout_occupancy)

lemma run_occupancy: "occupancy_inv s \<Longrightarrow> occupancy_inv (run py s qs)"
  by (induction qs arbitrary: s) (simp_all add: handle_occupancy)

text \<open>
  Claim C2. In every state reached from the empty registry by any sequence of requests
  (room creation, check-in and check-out, through the forms or the JSON API), a room has
  a customer if and only if its status is 1; and each single request keeps that property:
  a check-in stores the customer and sets the status in the same step, a check-out clears
  both.
\<close>

theorem occupancy_invariant:
  "occupancy_inv (run py init_state qs) \<and> (occupancy_inv s \<longrightarrow> occupancy_inv (handle py s q))"
proof -
  have "occupancy_inv init_state"
    by (simp add: occupancy_inv_def init_state_def)
  then show ?thesis
    by (simp add: run_occupancy handle_occupancy)
qed

theorem occupancy_invariant_witness:
  "occupancy_inv (run ascii init_state
      [ManageRooms (room_form_of 101 ''n'' ''N'' ''S'' 500),
       ApiRooms (room_body_of 102 ''A'' ''S'' ''B'' 800),
       Checkin (checkin_form_of 101 1 ''Alice'' (Given (whole 200)))])
   \<and> map (\<lambda>r. (room_number r, status r, cust r \<noteq> None))
        (rooms (run ascii init_state
          [ManageRooms (room_form_of 101 ''n'' ''N'' ''S'' 500),
           ApiRooms (room_body_of 102 ''A'' ''S'' ''B'' 800),
           Checkin (checkin_form_of 101 1 ''Alice'' (Given (whole 200)))]))
      = [(101, 1, True), (102, 0, False)]
   \<and> occupancy_inv (handle ascii
        \<lparr>rooms = [taken_room_of 101 ''N'' ''N'' ''S'' 500 (guest (Some ''Alice'') (whole 200) (Some 1))],
         booking_ids = {Some 1}\<rparr>
        (Checkout (checkout_form_of 101 3)))
   \<and> rooms (handle ascii
        \<lparr>rooms = [taken_room_of 101 ''N'' ''N'' ''S'' 500 (guest (Some ''Alice'') (whole 200) (Some 1))],
         booking_ids = {Some 1}\<rparr>
        (Checkout (checkout_form_of 101 3)))
      = [free_room_of 101 ''N'' ''N'' ''S'' 500]"
proof -
  let ?qs = "[ManageRooms (room_form_of 101 ''n'' ''N'' ''S'' 500),
              ApiRooms (room_body_of 102 ''A'' ''S'' ''B'' 800),
              Checkin (checkin_form_of 101 1 ''Alice'' (Given (whole 200)))]"
  let ?s = "\<lparr>rooms = [taken_room_of 101 ''N'' ''N'' ''S'' 500 (guest (Some ''Alice'') (whole 200) (Some 1))],
             booking_ids = {Some 1}\<rparr>"
  let ?q = "Checkout (checkout_form_of 101 3)"
  note inv = occupancy_invariant [of ascii ?qs ?s ?q]
  have pre: "occupancy_inv ?s"
    by (simp add: occupancy_inv_def example_defs)
  have a: "occupancy_inv (run ascii init_state ?qs)"
    using inv by blast
  have b: "occupancy_inv (handle ascii ?s ?q)"
    using inv pre by blast
  have c: "map (\<lambda>r. (room_number r, status r, cust r \<noteq> None)) (rooms (run ascii init_state ?qs))
           = [(101, 1, True), (102, 0, False)]"
    by (simp add: handler_defs float_eval string_defs example_defs)
  have d: "rooms (handle ascii ?s ?q) = [free_room_of 101 ''N'' ''N'' ''S'' 500]"
    by (simp add: handler_defs float_eval example_defs)
  from a b c d show ?thesis by blast
qed

subsection \<open>Uniqueness of room numbers\<close>

lemma manage_rooms_unique: "unique_numbers s \<Longrightarrow> unique_numbers (snd (manage_rooms py s f))"
  by (simp add: manage_rooms_def unique_numbers_def Let_def find_room_index_None
      split: field.splits option.splits)

lemma api_rooms_unique: "unique_numbers s \<Longrightarrow> unique_numbers (snd (api_rooms s d))"
  by (simp add: api_rooms_def unique_numbers_def Let_def find_room_index_None
      split: field.splits option.splits)

lemma numbers_checkin: "map room_number (rooms (snd (checkin py s f))) = map room_number (rooms s)"
  by (simp add: checkin_def Let_def map_update map_update_same
      split: field.splits option.splits)

lemma numbers_api_checkin:
  "map room_number (rooms (snd (api_checkin s d))) = map room_number (rooms s)"
  by (simp add: api_checkin_def Let_def map_update map_update_same
      split: field.splits option.splits)

lemma numbers_free_room: "map room_number (rooms (free_room s i)) = map room_number (rooms s)"
  by (simp add: free_room_def Let_def map_update map_update_same)

lemma numbers_checkout: "map room_number (rooms (snd (checkout s f))) = map room_number (rooms s)"
  by (simp add: checkout_def numbers_free_room split: field.splits option.splits)

lemma numbers_api_checkout:
  "map room_number (rooms (snd (api_checkout s d))) = map room_number (rooms s)"
  by (simp add: api_checkout_def numbers_free_room split: field.splits option.splits)

lemma handle_unique: "unique_numbers s \<Longrightarrow> unique_numbers (handle py s q)"
proof (cases q)
  case (ManageRooms f)
  assume "unique_numbers s"
  with ManageRooms show ?thesis by (simp add: manage_rooms_unique)
next
  case (ApiRooms d)
  assume "unique_numbers s"
  with ApiRooms show ?thesis by (simp add: api_rooms_unique)
next
  case (Checkin f)
  assume "unique_numbers s"
  with Checkin show ?thesis by (simp add: unique_numbers_def numbers_checkin)
next
  case (Checkout f)
  assume "unique_numbers s"
  with Checkout show ?thesis by (simp add: unique_numbers_def numbers_checkout)
next
  case (ApiCheckin d)
  assume "unique_numbers s"
  with ApiCheckin show ?thesis by (simp add: unique_numbers_def numbers_api_checkin)
next
  case (ApiCheckout d)
  assume "unique_numbers s"
  with ApiCheckout show ?thesis by (simp add: unique_numbers_def numbers_api_checkout)
qed

lemma run_unique: "unique_numbers s \<Longrightarrow> unique_numbers (run py s qs)"
  by (induction qs arbitrary: s) (simp_all add: handle_unique)

text \<open>
  Claim C5. After any sequence of requests from the empty registry no two rooms have the
  same room number; and a room creation, through the form or through the JSON API, whose
  room number is already in the registry answers "room exists" and leaves the state as it
  was.
\<close>

theorem room_numbers_unique:
  "unique_numbers (run py init_state qs)
   \<and> (rf_room_number f = Given n \<and> n \<in> room_number ` set (rooms s)
        \<longrightarrow> manage_rooms py s f = (Inl DuplicateRoomError, s))
   \<and> (rb_room_number d = Some n \<and> n \<in> room_number ` set (rooms s)
        \<longrightarrow> api_rooms s d = (Inl DuplicateRoomError, s))"
proof -
  have "unique_numbers init_state"
    by (simp add: unique_numbers_def init_state_def)
  then have "unique_numbers (run py init_state qs)"
    by (rule run_unique)
  moreover have "manage_rooms py s f = (Inl DuplicateRoomError, s)"
    if "rf_room_number f = Given n" and "n \<in> room_number ` set (rooms s)"
    using that by (simp add: manage_rooms_def find_room_index_None)
  moreover have "api_rooms s d = (Inl DuplicateRoomError, s)"
    if "rb_room_number d = Some n" and "n \<in> room_number ` set (rooms s)"
    using that by (simp add: api_rooms_def find_room_index_None)
  ultimately show ?thesis by blast
qed

theorem room_numbers_unique_witness:
  "unique_numbers (run ascii init_state
      [ManageRooms (room_form_of 101 ''N'' ''N'' ''S'' 500),
       ApiRooms (room_body_of 101 ''A'' ''S'' ''B'' 900),
       ApiRooms (room_body_of 102 ''A'' ''S'' ''B'' 800),
       ManageRooms (room_form_of 102 ''N'' ''N'' ''S'' 700)])
   \<and> rooms (run ascii init_state
      [ManageRooms (room_form_of 101 ''N'' ''N'' ''S'' 500),
       ApiRooms (room_body_of 101 ''A'' ''S'' ''B'' 900),
       ApiRooms (room_body_of 102 ''A'' ''S'' ''B'' 800),
       ManageRooms (room_form_of 102 ''N'' ''N'' ''S'' 700)])
     = [free_room_of 101 ''N'' ''N'' ''S'' 500, free_room_of 102 ''A'' ''S'' ''B'' 800]
   \<and> manage_rooms ascii \<lparr>rooms = [free_room_of 101 ''N'' ''N'' ''S'' 500], booking_ids = {}\<rparr>
        (room_form_of 101 ''A'' ''S'' ''B'' 900)
     = (Inl DuplicateRoomError, \<lparr>rooms = [free_room_of 101 ''N'' ''N'' ''S'' 500], booking_ids = {}\<rparr>)
   \<and> api_rooms \<lparr>rooms = [free_room_of 101 ''N'' ''N'' ''S'' 500], booking_ids = {}\<rparr>
        (room_body_of 101 ''A'' ''S'' ''B'' 900)
     = (Inl DuplicateRoomError, \<lparr>rooms = [free_room_of 101 ''N'' ''N'' ''S'' 500], booking_ids = {}\<rparr>)"
proof -
  let ?qs = "[ManageRooms (room_form_of 101 ''N'' ''N'' ''S'' 500),
              ApiRooms (room_body_of 101 ''A'' ''S'' ''B'' 900),
              ApiRooms (room_body_of 102 ''A'' ''S'' ''B'' 800),
              ManageRooms (room_form_of 102 ''N'' ''N'' ''S'' 700)]"
  let ?s = "\<lparr>rooms = [free_room_of 101 ''N'' ''N'' ''S'' 500], booking_ids = {}\<rparr>"
  note u = room_numbers_unique [of ascii ?qs "room_form_of 101 ''A'' ''S'' ''B'' 900" 101 ?s
      "room_body_of 101 ''A'' ''S'' ''B'' 900"]
  have f: "rf_room_number (room_form_of 101 ''A'' ''S'' ''B'' 900) = Given 101"
    by (simp add: room_form_of_def)
  have d: "rb_room_number (room_body_of 101 ''A'' ''S'' ''B'' 900) = Some 101"
    by (simp add: room_body_of_def)
  have m: "101 \<in> room_number ` set (rooms ?s)"
    by (simp add: free_room_of_def)
  have r: "rooms (run ascii init_state ?qs)
           = [free_room_of 101 ''N'' ''N'' ''S'' 500, free_room_of 102 ''A'' ''S'' ''B'' 800]"
    by (simp add: handler_defs float_eval string_defs example_defs)
  from u f d m r show ?thesis by blast
qed

subsection \<open>Failures change nothing\<close>

lemma manage_rooms_failure: "isl (fst (manage_rooms py s f)) \<Longrightarrow> snd (manage_rooms py s f) = s"
  by (auto simp: manage_rooms_def Let_def split: field.splits option.splits if_splits)

lemma checkin_failure: "isl (fst (checkin py s f)) \<Longrightarrow> snd (checkin py s f) = s"
  by (simp add: checkin_def Let_def split: field.splits option.splits if_splits)

lemma checkout_failure: "isl (fst (checkout s f)) \<Longrightarrow> snd (checkout s f) = s"
  by (simp add: checkout_def split: field.splits option.splits if_splits)

lemma api_rooms_failure: "isl (fst (api_rooms s d)) \<Longrightarrow> snd (api_rooms s d) = s"
  by (simp add: api_rooms_def split: field.splits option.splits if_splits)

lemma api_checkin_failure: "isl (fst (api_checkin s d)) \<Longrightarrow> snd (api_checkin s d) = s"
  by (simp add: api_checkin_def Let_def split: field.splits option.splits if_splits)

lemma api_checkout_failure: "isl (fst (api_checkout s d)) \<Longrightarrow> snd (api_checkout s d) = s"
  by (simp add: api_checkout_def split: field.splits option.splits if_splits)

lemma free_room_index:
  "find_room_index (rooms (free_room s i)) n = find_room_index (rooms s) n"
  by (rule find_room_index_numbers) (rule numbers_free_room)

lemma free_room_status:
  "i < length (rooms s) \<Longrightarrow> status (rooms (free_room s i) ! i) = 0"
  by (simp add: free_room_def Let_def)

lemma checkout_twice:
  assumes "\<not> isl (fst (checkout s f))"
  shows "checkout (snd (checkout s f)) f = (Inl RoomNotOccupiedError, snd (checkout s f))"
proof -
  from assms obtain n i d b where f: "of_room_number f = Given n" "of_days f = Given d"
    and i: "find_room_index (rooms s) n = Some i" and "status (rooms s ! i) \<noteq> 0"
    and "bill_of (rooms s ! i) d = Some b"
    by (auto simp: checkout_def split: field.splits option.splits if_splits)
  then have s': "snd (checkout s f) = free_room s i"
    by (simp add: checkout_def)
  from i have "i < length (rooms s)"
    by (simp add: find_room_index_Some)
  then have "status (rooms (free_room s i) ! i) = 0"
    by (rule free_room_status)
  with f i show ?thesis
    unfolding s' by (simp add: checkout_def free_room_index)
qed

lemma api_checkout_twice:
  assumes "\<not> isl (fst (api_checkout s d))"
  shows "api_checkout (snd (api_checkout s d)) d
         = (Inl RoomNotOccupiedError, snd (api_checkout s d))"
proof -
  from assms obtain n i dy b where d: "ob_room_number d = Some n"
    "convert_default (ob_days d) 0 = Some dy"
    and i: "find_room_index (rooms s) n = Some i" and "status (rooms s ! i) \<noteq> 0"
    and "bill_of (rooms s ! i) dy = Some b"
    by (auto simp: api_checkout_def split: field.splits option.splits if_splits)
  then have s': "snd (api_checkout s d) = free_room s i"
    by (simp add: api_checkout_def)
  from i have "i < length (rooms s)"
    by (simp add: find_room_index_Some)
  then have "status (rooms (free_room s i) ! i) = 0"
    by (rule free_room_status)
  with d i show ?thesis
    unfolding s' by (simp add: api_checkout_def free_room_index)
qed

text \<open>
  Claim C7. Whenever one of the six handlers answers with a failure (any of its flash
  messages or error responses, or an exception raised by a conversion), the room list and
  the booking-id set are exactly what they were before the request. In particular, after
  a check-out that succeeded, the same check-out request sent again is answered "not
  checked-in" and leaves the state exactly as the first check-out left it.
\<close>

theorem failures_leave_state_unchanged:
  "(isl (fst (manage_rooms py s1 rf)) \<longrightarrow> snd (manage_rooms py s1 rf) = s1)
   \<and> (isl (fst (checkin py s2 cf)) \<longrightarrow> snd (checkin py s2 cf) = s2)
   \<and> (isl (fst (checkout s3 ofm)) \<longrightarrow> snd (checkout s3 ofm) = s3)
   \<and> (isl (fst (api_rooms s4 rb)) \<longrightarrow> snd (api_rooms s4 rb) = s4)
   \<and> (isl (fst (api_checkin s5 cb)) \<longrightarrow> snd (api_checkin s5 cb) = s5)
   \<and> (isl (fst (api_checkout s6 ob)) \<longrightarrow> snd (api_checkout s6 ob) = s6)
   \<and> (\<not> isl (fst (checkout s7 ofm')) \<longrightarrow>
        checkout (snd (checkout s7 ofm')) ofm'
        = (Inl RoomNotOccupiedError, snd (checkout s7 ofm')))
   \<and> (\<not> isl (fst (api_checkout s8 ob')) \<longrightarrow>
        api_checkout (snd (api_checkout s8 ob')) ob'
        = (Inl RoomNotOccupiedError, snd (api_checkout s8 ob')))"
  using manage_rooms_failure [of py s1 rf] checkin_failure [of py s2 cf] checkout_failure [of s3 ofm]
    api_rooms_failure [of s4 rb] api_checkin_failure [of s5 cb] api_checkout_failure [of s6 ob]
    checkout_twice [of s7 ofm'] api_checkout_twice [of s8 ob']
  by blast

theorem failures_leave_state_unchanged_witness:
  "fst (manage_rooms ascii \<lparr>rooms = [free_room_of 101 ''N'' ''N'' ''S'' 500], booking_ids = {}\<rparr>
          (room_form_of 101 ''A'' ''S'' ''B'' 900)) = Inl DuplicateRoomError
   \<and> snd (manage_rooms ascii \<lparr>rooms = [free_room_of 101 ''N'' ''N'' ''S'' 500], booking_ids = {}\<rparr>
          (room_form_of 101 ''A'' ''S'' ''B'' 900))
       = \<lparr>rooms = [free_room_of 101 ''N'' ''N'' ''S'' 500], booking_ids = {}\<rparr>
   \<and> fst (checkin ascii init_state (checkin_form_of 101 1 ''Alice'' (Given (whole 200)))) = Inl RoomNotFoundError
   \<and> snd (checkin ascii init_state (checkin_form_of 101 1 ''Alice'' (Given (whole 200)))) = init_state
   \<and> fst (checkout \<lparr>rooms = [free_room_of 101 ''N'' ''N'' ''S'' 500], booking_ids = {}\<rparr>
          (checkout_form_of 101 3)) = Inl RoomNotOccupiedError
   \<and> snd (checkout \<lparr>rooms = [free_room_of 101 ''N'' ''N'' ''S'' 500], booking_ids = {}\<rparr>
          (checkout_form_of 101 3))
       = \<lparr>rooms = [free_room_of 101 ''N'' ''N'' ''S'' 500], booking_ids = {}\<rparr>
   \<and> fst (api_rooms init_state
          \<lparr>rb_room_number = Some 101, rb_ac = Absent, rb_comfort = Absent, rb_size = Absent,
           rb_rent = Malformed\<rparr>) = Inl UncaughtException
   \<and> snd (api_rooms init_state
          \<lparr>rb_room_number = Some 101, rb_ac = Absent, rb_comfort = Absent, rb_size = Absent,
           rb_rent = Malformed\<rparr>) = init_state
   \<and> fst (api_checkin \<lparr>rooms = [free_room_of 101 ''N'' ''N'' ''S'' 500], booking_ids = {}\<rparr>
          (checkin_body_of 101 (Some 1) (Text ''Alice'') Malformed)) = Inl UncaughtException
   \<and> snd (api_checkin \<lparr>rooms = [free_room_of 101 ''N'' ''N'' ''S'' 500], booking_ids = {}\<rparr>
          (checkin_body_of 101 (Some 1) (Text ''Alice'') Malformed))
       = \<lparr>rooms = [free_room_of 101 ''N'' ''N'' ''S'' 500], booking_ids = {}\<rparr>
   \<and> fst (api_checkout
          \<lparr>rooms = [taken_room_of 101 ''N'' ''N'' ''S'' 500 (guest (Some ''Alice'') (whole 200) (Some 1))],
           booking_ids = {Some 1}\<rparr>
          \<lparr>ob_room_number = Some 101, ob_days = Malformed\<rparr>) = Inl UncaughtException
   \<and> snd (api_checkout
          \<lparr>rooms = [taken_room_of 101 ''N'' ''N'' ''S'' 500 (guest (Some ''Alice'') (whole 200) (Some 1))],
           booking_ids = {Some 1}\<rparr>
          \<lparr>ob_room_number = Some 101, ob_days = Malformed\<rparr>)
       = \<lparr>rooms = [taken_room_of 101 ''N'' ''N'' ''S'' 500 (guest (Some ''Alice'') (whole 200) (Some 1))],
          booking_ids = {Some 1}\<rparr>
   \<and> checkout
          \<lparr>rooms = [taken_room_of 101 ''N'' ''N'' ''S'' 500 (guest (Some ''Alice'') (whole 200) (Some 1))],
           booking_ids = {Some 1}\<rparr>
          (checkout_form_of 101 3)
       = (Inr (101, \<lparr>bill = 1500, advance = whole 200, payable = whole 1300\<rparr>),
          \<lparr>rooms = [free_room_of 101 ''N'' ''N'' ''S'' 500], booking_ids = {}\<rparr>)
   \<and> checkout \<lparr>rooms = [free_room_of 101 ''N'' ''N'' ''S'' 500], booking_ids = {}\<rparr>
          (checkout_form_of 101 3)
       = (Inl RoomNotOccupiedError,
          \<lparr>rooms = [free_room_of 101 ''N'' ''N'' ''S'' 500], booking_ids = {}\<rparr>)
   \<and> api_checkout
          \<lparr>rooms = [taken_room_of 101 ''N'' ''N'' ''S'' 500 (guest (Some ''Alice'') (whole 200) (Some 1))],
           booking_ids = {Some 1}\<rparr>
          (checkout_body_of 101 3)
       = (Inr \<lparr>bill = 1500, advance = whole 200, payable = whole 1300\<rparr>,
          \<lparr>rooms = [free_room_of 101 ''N'' ''N'' ''S'' 500], booking_ids = {}\<rparr>)
   \<and> api_checkout \<lparr>rooms = [free_room_of 101 ''N'' ''N'' ''S'' 500], booking_ids = {}\<rparr>
          (checkout_body_of 101 3)
       = (Inl RoomNotOccupiedError,
          \<lparr>rooms = [free_room_of 101 ''N'' ''N'' ''S'' 500], booking_ids = {}\<rparr>)"
proof -
  let ?free = "\<lparr>rooms = [free_room_of 101 ''N'' ''N'' ''S'' 500], booking_ids = {}\<rparr>"
  let ?taken = "\<lparr>rooms = [taken_room_of 101 ''N'' ''N'' ''S'' 500 (guest (Some ''Alice'') (whole 200) (Some 1))],
                 booking_ids = {Some 1}\<rparr>"
  let ?rf = "room_form_of 101 ''A'' ''S'' ''B'' 900"
  let ?cf = "checkin_form_of 101 1 ''Alice'' (Given (whole 200))"
  let ?of = "checkout_form_of 101 3"
  let ?rb = "\<lparr>rb_room_number = Some 101, rb_ac = Absent, rb_comfort = Absent, rb_size = Absent,
              rb_rent = Malformed\<rparr>"
  let ?cb = "checkin_body_of 101 (Some 1) (Text ''Alice'') Malformed"
  let ?ob = "\<lparr>ob_room_number = Some 101, ob_days = Malformed\<rparr>"
  let ?ob' = "checkout_body_of 101 3"
  note t = failures_leave_state_unchanged
    [of ascii ?free ?rf init_state ?cf ?free ?of init_state ?rb ?free ?cb ?taken ?ob ?taken ?of ?taken ?ob']
  have e1: "fst (manage_rooms ascii ?free ?rf) = Inl DuplicateRoomError"
    by (simp add: handler_defs float_eval example_defs)
  have e2: "fst (checkin ascii init_state ?cf) = Inl RoomNotFoundError"
    by (simp add: handler_defs float_eval example_defs)
  have e3: "fst (checkout ?free ?of) = Inl RoomNotOccupiedError"
    by (simp add: handler_defs float_eval example_defs)
  have e4: "fst (api_rooms init_state ?rb) = Inl UncaughtException"
    by (simp add: handler_defs float_eval example_defs)
  have e5: "fst (api_checkin ?free ?cb) = Inl UncaughtException"
    by (simp add: handler_defs float_eval example_defs)
  have e6: "fst (api_checkout ?taken ?ob) = Inl UncaughtException"
    by (simp add: handler_defs float_eval example_defs)
  have e7: "checkout ?taken ?of
            = (Inr (101, \<lparr>bill = 1500, advance = whole 200, payable = whole 1300\<rparr>), ?free)"
    by (simp add: handler_defs float_eval example_defs)
  have e8: "api_checkout ?taken ?ob'
            = (Inr \<lparr>bill = 1500, advance = whole 200, payable = whole 1300\<rparr>, ?free)"
    by (simp add: handler_defs float_eval example_defs)
  from t e1 have c1: "snd (manage_rooms ascii ?free ?rf) = ?free" by simp
  from t e2 have c2: "snd (checkin ascii init_state ?cf) = init_state" by simp
  from t e3 have c3: "snd (checkout ?free ?of) = ?free" by simp
  from t e4 have c4: "snd (api_rooms init_state ?rb) = init_state" by simp
  from t e5 have c5: "snd (api_checkin ?free ?cb) = ?free" by simp
  from t e6 have c6: "snd (api_checkout ?taken ?ob) = ?taken" by simp
  from t e7 have c7: "checkout ?free ?of = (Inl RoomNotOccupiedError, ?free)" by simp
  from t e8 have c8: "api_checkout ?free ?ob' = (Inl RoomNotOccupiedError, ?free)" by simp
  from e1 e2 e3 e4 e5 e6 e7 e8 c1 c2 c3 c4 c5 c6 c7 c8 show ?thesis
    by (intro conjI)
qed

subsection \<open>Check-in with a booking id in use\<close>

lemma checkin_adds_booking_id:
  "fst (checkin py s f) = Inr () \<Longrightarrow> cf_booking_id f = Given b \<Longrightarrow>
   Some b \<in> booking_ids (snd (checkin py s f))"
  by (auto simp: checkin_def Let_def split: field.splits option.splits if_splits)

lemma api_checkin_adds_booking_id:
  "fst (api_checkin s d) = Inr () \<Longrightarrow> cb_booking_id d \<in> booking_ids (snd (api_checkin s d))"
  by (auto simp: api_checkin_def Let_def split: field.splits option.splits if_splits)

lemma checkin_booking_id_taken:
  assumes "unique_numbers s" and "r \<in> set (rooms s)" and "status r = 0"
    and "cf_room_number f = Given (room_number r)" and "cf_booking_id f = Given b"
    and "Some b \<in> booking_ids s"
  shows "checkin py s f = (Inl DuplicateBookingIdError, s)"
proof -
  from assms(1,2) obtain i where "find_room_index (rooms s) (room_number r) = Some i"
    and "rooms s ! i = r"
    unfolding unique_numbers_def by (blast dest: find_room_index_member)
  with assms(3-6) show ?thesis
    by (simp add: checkin_def)
qed

lemma api_checkin_booking_id_taken:
  assumes "unique_numbers s" and "r \<in> set (rooms s)" and "status r = 0"
    and "cb_room_number d = Some (room_number r)" and "cb_booking_id d \<in> booking_ids s"
  shows "api_checkin s d = (Inl DuplicateBookingIdError, s)"
proof -
  from assms(1,2) obtain i where "find_room_index (rooms s) (room_number r) = Some i"
    and "rooms s ! i = r"
    unfolding unique_numbers_def by (blast dest: find_room_index_member)
  with assms(3-5) show ?thesis
    by (simp add: api_checkin_def)
qed

lemma available_no_customer:
  "occupancy_inv s \<Longrightarrow> r \<in> set (rooms s) \<Longrightarrow> status r = 0 \<Longrightarrow> cust r = None"
  by (auto simp: occupancy_inv_def)

text \<open>
  Claim C8. A successful check-in, through the form or through the JSON API, puts its
  booking id into the in-use set. A check-in into an available room (status 0) with a
  booking id that is in the in-use set answers "booking id taken" on both paths and
  returns the state unchanged, so the room it named is still available; an available
  room has no customer in a state with the occupancy invariant. Room numbers are distinct
  and the occupancy invariant holds, as they do in every reachable state.
\<close>

theorem duplicate_booking_id_rejected:
  "(fst (checkin py s0 fa) = Inr () \<and> cf_booking_id fa = Given a
      \<longrightarrow> Some a \<in> booking_ids (snd (checkin py s0 fa)))
   \<and> (fst (api_checkin s0 da) = Inr ()
      \<longrightarrow> cb_booking_id da \<in> booking_ids (snd (api_checkin s0 da)))
   \<and> (unique_numbers s \<and> r \<in> set (rooms s) \<and> status r = 0
       \<and> cf_room_number f = Given (room_number r) \<and> cf_booking_id f = Given b
       \<and> Some b \<in> booking_ids s
      \<longrightarrow> checkin py s f = (Inl DuplicateBookingIdError, s))
   \<and> (unique_numbers s \<and> r \<in> set (rooms s) \<and> status r = 0
       \<and> cb_room_number d = Some (room_number r) \<and> cb_booking_id d \<in> booking_ids s
      \<longrightarrow> api_checkin s d = (Inl DuplicateBookingIdError, s))
   \<and> (occupancy_inv s \<and> r \<in> set (rooms s) \<and> status r = 0 \<longrightarrow> cust r = None)"
  using checkin_adds_booking_id [of py s0 fa a] api_checkin_adds_booking_id [of s0 da]
    checkin_booking_id_taken [of s r f b py] api_checkin_booking_id_taken [of s r d]
    available_no_customer [of s r]
  by blast

theorem duplicate_booking_id_rejected_witness:
  "checkin ascii \<lparr>rooms = [free_room_of 101 ''N'' ''N'' ''S'' 500, free_room_of 102 ''A'' ''S'' ''B'' 800],
            booking_ids = {}\<rparr>
      (checkin_form_of 101 7 ''Alice'' (Given (whole 200)))
     = (Inr (),
        \<lparr>rooms = [taken_room_of 101 ''N'' ''N'' ''S'' 500 (guest (Some ''Alice'') (whole 200) (Some 7)),
                  free_room_of 102 ''A'' ''S'' ''B'' 800],
         booking_ids = {Some 7}\<rparr>)
   \<and> api_checkin \<lparr>rooms = [free_room_of 101 ''N'' ''N'' ''S'' 500, free_room_of 102 ''A'' ''S'' ''B'' 800],
            booking_ids = {}\<rparr>
      (checkin_body_of 101 (Some 7) (Text ''Alice'') (Given (whole 200)))
     = (Inr (),
        \<lparr>rooms = [taken_room_of 101 ''N'' ''N'' ''S'' 500 (guest (Some ''Alice'') (whole 200) (Some 7)),
                  free_room_of 102 ''A'' ''S'' ''B'' 800],
         booking_ids = {Some 7}\<rparr>)
   \<and> checkin ascii
        \<lparr>rooms = [taken_room_of 101 ''N'' ''N'' ''S'' 500 (guest (Some ''Alice'') (whole 200) (Some 7)),
                  free_room_of 102 ''A'' ''S'' ''B'' 800],
         booking_ids = {Some 7}\<rparr>
        (checkin_form_of 102 7 ''Bob'' (Given (whole 50)))
     = (Inl DuplicateBookingIdError,
        \<lparr>rooms = [taken_room_of 101 ''N'' ''N'' ''S'' 500 (guest (Some ''Alice'') (whole 200) (Some 7)),
                  free_room_of 102 ''A'' ''S'' ''B'' 800],
         booking_ids = {Some 7}\<rparr>)
   \<and> api_checkin
        \<lparr>rooms = [taken_room_of 101 ''N'' ''N'' ''S'' 500 (guest (Some ''Alice'') (whole 200) (Some 7)),
                  free_room_of 102 ''A'' ''S'' ''B'' 800],
         booking_ids = {Some 7}\<rparr>
        (checkin_body_of 102 (Some 7) (Text ''Bob'') (Given (whole 50)))
     = (Inl DuplicateBookingIdError,
        \<lparr>rooms = [taken_room_of 101 ''N'' ''N'' ''S'' 500 (guest (Some ''Alice'') (whole 200) (Some 7)),
                  free_room_of 102 ''A'' ''S'' ''B'' 800],
         booking_ids = {Some 7}\<rparr>)
   \<and> status (free_room_of 102 ''A'' ''S'' ''B'' 800) = 0
   \<and> cust (free_room_of 102 ''A'' ''S'' ''B'' 800) = None"
proof -
  let ?before = "\<lparr>rooms = [free_room_of 101 ''N'' ''N'' ''S'' 500, free_room_of 102 ''A'' ''S'' ''B'' 800],
              booking_ids = {}\<rparr>"
  let ?s = "\<lparr>rooms = [taken_room_of 101 ''N'' ''N'' ''S'' 500 (guest (Some ''Alice'') (whole 200) (Some 7)),
                      free_room_of 102 ''A'' ''S'' ''B'' 800],
             booking_ids = {Some 7}\<rparr>"
  let ?fa = "checkin_form_of 101 7 ''Alice'' (Given (whole 200))"
  let ?da = "checkin_body_of 101 (Some 7) (Text ''Alice'') (Given (whole 200))"
  let ?r = "free_room_of 102 ''A'' ''S'' ''B'' 800"
  let ?f = "checkin_form_of 102 7 ''Bob'' (Given (whole 50))"
  let ?d = "checkin_body_of 102 (Some 7) (Text ''Bob'') (Given (whole 50))"
  note t = duplicate_booking_id_rejected [of ascii ?before ?fa 7 ?da ?s ?r ?f 7 ?d]
  have a1: "checkin ascii ?before ?fa = (Inr (), ?s)"
    by (simp add: handler_defs float_eval string_defs example_defs)
  have a2: "api_checkin ?before ?da = (Inr (), ?s)"
    by (simp add: handler_defs float_eval example_defs)
  have ids: "cf_booking_id ?fa = Given 7" "cb_booking_id ?da = Some 7"
    "cf_booking_id ?f = Given 7" "cb_booking_id ?d = Some 7"
    "cf_room_number ?f = Given (room_number ?r)" "cb_room_number ?d = Some (room_number ?r)"
    by (simp_all add: example_defs)
  from t a1 a2 ids(1,2) have m: "Some 7 \<in> booking_ids ?s"
    by simp
  have u: "unique_numbers ?s"
    by (simp add: unique_numbers_def example_defs)
  have r: "?r \<in> set (rooms ?s)" "status ?r = 0"
    by (simp_all add: example_defs)
  have o: "occupancy_inv ?s"
    by (simp add: occupancy_inv_def example_defs)
  from t m u r ids have b1: "checkin ascii ?s ?f = (Inl DuplicateBookingIdError, ?s)"
    by blast
  from t m u r ids have b2: "api_checkin ?s ?d = (Inl DuplicateBookingIdError, ?s)"
    by metis
  from t o r have c: "cust ?r = None"
    by blast
  from a1 a2 b1 b2 r(2) c show ?thesis
    by (intro conjI)
qed

subsection \<open>A stay from creation to check-out\<close>

text \<open>
  Claim C6. From the empty registry: creating room 101 (no air-conditioning, normal
  comfort, small, rent 500), checking a guest in with booking id 1 and an advance of 200,
  and checking out after 3 days succeeds at every step; the check-out answers bill 1500,
  advance 200 and payable 1300; afterwards room 101 has status 0 and no customer, booking
  id 1 is not in the in-use set, and a later check-in with booking id 1 succeeds. This
  holds through the forms and through the JSON API.
\<close>

theorem round_trip:
  "manage_rooms ascii init_state (room_form_of 101 ''N'' ''N'' ''S'' 500)
     = (Inr (), \<lparr>rooms = [free_room_of 101 ''N'' ''N'' ''S'' 500], booking_ids = {}\<rparr>)
   \<and> checkin ascii \<lparr>rooms = [free_room_of 101 ''N'' ''N'' ''S'' 500], booking_ids = {}\<rparr>
        (checkin_form_of 101 1 ''Alice'' (Given (whole 200)))
     = (Inr (),
        \<lparr>rooms = [taken_room_of 101 ''N'' ''N'' ''S'' 500 (guest (Some ''Alice'') (whole 200) (Some 1))],
         booking_ids = {Some 1}\<rparr>)
   \<and> checkout
        \<lparr>rooms = [taken_room_of 101 ''N'' ''N'' ''S'' 500 (guest (Some ''Alice'') (whole 200) (Some 1))],
         booking_ids = {Some 1}\<rparr>
        (checkout_form_of 101 3)
     = (Inr (101, \<lparr>bill = 1500, advance = whole 200, payable = whole 1300\<rparr>),
        \<lparr>rooms = [free_room_of 101 ''N'' ''N'' ''S'' 500], booking_ids = {}\<rparr>)
   \<and> api_rooms init_state (room_body_of 101 ''N'' ''N'' ''S'' 500)
     = (Inr (), \<lparr>rooms = [free_room_of 101 ''N'' ''N'' ''S'' 500], booking_ids = {}\<rparr>)
   \<and> api_checkin \<lparr>rooms = [free_room_of 101 ''N'' ''N'' ''S'' 500], booking_ids = {}\<rparr>
        (checkin_body_of 101 (Some 1) (Text ''Alice'') (Given (whole 200)))
     = (Inr (),
        \<lparr>rooms = [taken_room_of 101 ''N'' ''N'' ''S'' 500 (guest (Some ''Alice'') (whole 200) (Some 1))],
         booking_ids = {Some 1}\<rparr>)
   \<and> api_checkout
        \<lparr>rooms = [taken_room_of 101 ''N'' ''N'' ''S'' 500 (guest (Some ''Alice'') (whole 200) (Some 1))],
         booking_ids = {Some 1}\<rparr>
        (checkout_body_of 101 3)
     = (Inr \<lparr>bill = 1500, advance = whole 200, payable = whole 1300\<rparr>,
        \<lparr>rooms = [free_room_of 101 ''N'' ''N'' ''S'' 500], booking_ids = {}\<rparr>)
   \<and> status (free_room_of 101 ''N'' ''N'' ''S'' 500) = 0
   \<and> cust (free_room_of 101 ''N'' ''N'' ''S'' 500) = None
   \<and> Some 1 \<notin> booking_ids \<lparr>rooms = [free_room_of 101 ''N'' ''N'' ''S'' 500], booking_ids = {}\<rparr>
   \<and> fst (checkin ascii \<lparr>rooms = [free_room_of 101 ''N'' ''N'' ''S'' 500], booking_ids = {}\<rparr>
          (checkin_form_of 101 1 ''Bob'' Missing)) = Inr ()
   \<and> fst (api_checkin \<lparr>rooms = [free_room_of 101 ''N'' ''N'' ''S'' 500], booking_ids = {}\<rparr>
          (checkin_body_of 101 (Some 1) (Text ''Bob'') Missing)) = Inr ()"
proof (intro conjI)
  let ?free = "\<lparr>rooms = [free_room_of 101 ''N'' ''N'' ''S'' 500], booking_ids = {}\<rparr>"
  let ?taken = "\<lparr>rooms = [taken_room_of 101 ''N'' ''N'' ''S'' 500 (guest (Some ''Alice'') (whole 200) (Some 1))],
                 booking_ids = {Some 1}\<rparr>"
  show "manage_rooms ascii init_state (room_form_of 101 ''N'' ''N'' ''S'' 500) = (Inr (), ?free)"
    by (simp add: handler_defs float_eval string_defs example_defs)
  show "checkin ascii ?free (checkin_form_of 101 1 ''Alice'' (Given (whole 200))) = (Inr (), ?taken)"
    by (simp add: handler_defs float_eval string_defs example_defs)
  show "checkout ?taken (checkout_form_of 101 3)
        = (Inr (101, \<lparr>bill = 1500, advance = whole 200, payable = whole 1300\<rparr>), ?free)"
    by (simp add: handler_defs float_eval example_defs)
  show "api_rooms init_state (room_body_of 101 ''N'' ''N'' ''S'' 500) = (Inr (), ?free)"
    by (simp add: handler_defs float_eval example_defs)
  show "api_checkin ?free (checkin_body_of 101 (Some 1) (Text ''Alice'') (Given (whole 200))) = (Inr (), ?taken)"
    by (simp add: handler_defs float_eval example_defs)
  show "api_checkout ?taken (checkout_body_of 101 3)
        = (Inr \<lparr>bill = 1500, advance = whole 200, payable = whole 1300\<rparr>, ?free)"
    by (simp add: handler_defs float_eval example_defs)
  show "status (free_room_of 101 ''N'' ''N'' ''S'' 500) = 0"
    by (simp add: example_defs)
  show "cust (free_room_of 101 ''N'' ''N'' ''S'' 500) = None"
    by (simp add: example_defs)
  show "Some 1 \<notin> booking_ids ?free"
    by simp
  show "fst (checkin ascii ?free (checkin_form_of 101 1 ''Bob'' Missing)) = Inr ()"
    by (simp add: handler_defs float_eval example_defs)
  show "fst (api_checkin ?free (checkin_body_of 101 (Some 1) (Text ''Bob'') Missing)) = Inr ()"
    by (simp add: handler_defs float_eval example_defs)
qed

theorem round_trip_witness:
  "run ascii init_state
     [ManageRooms (room_form_of 101 ''N'' ''N'' ''S'' 500),
      Checkin (checkin_form_of 101 1 ''Alice'' (Given (whole 200))),
      Checkout (checkout_form_of 101 3)]
     = \<lparr>rooms = [free_room_of 101 ''N'' ''N'' ''S'' 500], booking_ids = {}\<rparr>
   \<and> run ascii init_state
     [ApiRooms (room_body_of 101 ''N'' ''N'' ''S'' 500),
      ApiCheckin (checkin_body_of 101 (Some 1) (Text ''Alice'') (Given (whole 200))),
      ApiCheckout (checkout_body_of 101 3)]
     = \<lparr>rooms = [free_room_of 101 ''N'' ''N'' ''S'' 500], booking_ids = {}\<rparr>"
  using round_trip by simp

subsection \<open>Attribute validation at room creation\<close>


lemma attributes_kept [simp]: "attributes (r\<lparr>cust := c, status := x\<rparr>) = attributes r"
  by (simp add: attributes_def)














subsection \<open>Search by customer name\<close>

lemma search_loop_text:
  "list_all room_name_is_text rs \<Longrightarrow>
   search_loop (lower py) (lower py q) rs acc
   = Inr (acc @ map (\<lambda>r. (room_number r, the (cust r))) (filter (name_matches py q) rs))"
proof (induction rs arbitrary: acc)
  case Nil
  then show ?case by simp
next
  case (Cons r rs)
  then show ?case
    by (auto simp: name_matches_def room_name_is_text_def split: option.splits)
qed

lemma search_loop_occupied:
  "search_loop lw nm rs acc = Inr res \<Longrightarrow> (n, c) \<in> set res \<Longrightarrow>
   (n, c) \<in> set acc \<or> (\<exists>r \<in> set rs. status r = 1 \<and> room_number r = n \<and> cust r = Some c)"
proof (induction rs arbitrary: acc)
  case Nil
  then show ?case by simp
next
  case (Cons r rs)
  show ?case
  proof (cases "status r = 1")
    case False
    with Cons.prems have "search_loop lw nm rs acc = Inr res" by simp
    from Cons.IH [OF this Cons.prems(2)] show ?thesis by auto
  next
    case True
    show ?thesis
    proof (cases "cust r")
      case None
      with True Cons.prems have "search_loop lw nm rs acc = Inr res" by simp
      from Cons.IH [OF this Cons.prems(2)] show ?thesis by auto
    next
      case (Some k)
      show ?thesis
      proof (cases "name k")
        case None
        with True Some Cons.prems show ?thesis by simp
      next
        case (Some x)
        show ?thesis
        proof (cases "lw x = nm")
          case h: True
          with True \<open>cust r = Some k\<close> Some Cons.prems
          have "search_loop lw nm rs (acc @ [(room_number r, k)]) = Inr res" by simp
          from Cons.IH [OF this Cons.prems(2)] True \<open>cust r = Some k\<close> show ?thesis by auto
        next
          case h: False
          with True \<open>cust r = Some k\<close> Some Cons.prems
          have "search_loop lw nm rs acc = Inr res" by simp
          from Cons.IH [OF this Cons.prems(2)] show ?thesis by auto
        qed
      qed
    qed
  qed
qed

lemma search_loop_raises:
  assumes "r \<in> set rs" and "status r = 1" and "cust r = Some c" and "name c = None"
  shows "search_loop lw nm rs acc = Inl UncaughtException"
  using assms
proof (induction rs arbitrary: acc)
  case Nil
  then show ?case by simp
next
  case (Cons x xs)
  then show ?case
    by (cases "x = r") (auto split: option.splits)
qed

lemma search_stripped:
  assumes "names_are_text s"
  shows "api_search_customer py s (Some q) =
     Inr (if lower py (strip py q) = [] then []
          else search_by_customer_name py s (strip py q))"
  using assms search_loop_text [of "rooms s" py "strip py q" "[]"]
  by (simp add: api_search_customer_def search_by_customer_name_def names_are_text_def Let_def)

lemma search_occupied:
  assumes "api_search_customer py s q = Inr res" and "(n, c) \<in> set res"
  shows "\<exists>r \<in> set (rooms s). status r = 1 \<and> room_number r = n \<and> cust r = Some c"
proof (cases "lower py (strip py (get_default q [])) = []")
  case True
  with assms show ?thesis
    by (simp add: api_search_customer_def)
next
  case False
  with assms(1)
  have "search_loop (lower py) (lower py (strip py (get_default q []))) (rooms s) [] = Inr res"
    by (simp add: api_search_customer_def)
  from search_loop_occupied [OF this assms(2)] show ?thesis by simp
qed

lemma names_update:
  assumes "names_are_text s" and "room_name_is_text x"
  shows "names_are_text (s\<lparr>rooms := (rooms s)[i := x], booking_ids := b\<rparr>)"
proof -
  have "set ((rooms s)[i := x]) \<subseteq> insert x (set (rooms s))"
    by (rule set_update_subset_insert)
  with assms show ?thesis
    unfolding names_are_text_def list_all_iff by auto
qed

lemma manage_rooms_names: "names_are_text s \<Longrightarrow> names_are_text (snd (manage_rooms py s f))"
  by (auto simp: manage_rooms_def names_are_text_def room_name_is_text_def Let_def
      split: field.splits option.splits)

lemma api_rooms_names: "names_are_text s \<Longrightarrow> names_are_text (snd (api_rooms s d))"
  by (auto simp: api_rooms_def names_are_text_def room_name_is_text_def Let_def
      split: field.splits option.splits)

lemma checkin_names: "names_are_text s \<Longrightarrow> names_are_text (snd (checkin py s f))"
  by (simp add: checkin_def Let_def names_update room_name_is_text_def
      split: field.splits option.splits)

lemma api_checkin_names:
  "names_are_text s \<Longrightarrow> cb_name d \<noteq> NotText \<Longrightarrow> names_are_text (snd (api_checkin s d))"
  by (cases "cb_name d")
    (simp_all add: api_checkin_def Let_def names_update room_name_is_text_def
      split: field.splits option.splits)

lemma free_room_names: "names_are_text s \<Longrightarrow> names_are_text (free_room s i)"
  by (simp add: free_room_def Let_def names_update room_name_is_text_def)

lemma checkout_names: "names_are_text s \<Longrightarrow> names_are_text (snd (checkout s f))"
  by (auto simp: checkout_def free_room_names split: field.splits option.splits)

lemma api_checkout_names: "names_are_text s \<Longrightarrow> names_are_text (snd (api_checkout s d))"
  by (auto simp: api_checkout_def free_room_names split: field.splits option.splits)

lemma handle_names:
  "names_are_text s \<Longrightarrow> text_name_request q \<Longrightarrow> names_are_text (handle py s q)"
  by (cases q) (simp_all add: manage_rooms_names checkin_names checkout_names
      api_rooms_names api_checkin_names api_checkout_names)

lemma run_names:
  "names_are_text s \<Longrightarrow> \<forall>q \<in> set qs. text_name_request q \<Longrightarrow> names_are_text (run py s qs)"
  by (induction qs arbitrary: s) (simp_all add: handle_names)

lemma search_null_name_raises:
  assumes "r \<in> set (rooms s)" and "status r = 1" and "cust r = Some c" and "name c = None"
    and "lower py (strip py (get_default q [])) \<noteq> []"
  shows "api_search_customer py s q = Inl UncaughtException"
  using assms by (simp add: api_search_customer_def search_loop_raises)

text \<open>
  Claim C10 does not hold as stated: the handler strips the query before it compares, so
  the query \<open>Alice\<close> with a leading space finds the guest stored as \<open>alice\<close>, whose
  name does not equal that query when case is ignored.
\<close>

theorem search_exact_query_counterexample:
  "api_search_customer ascii
      \<lparr>rooms = [taken_room_of 101 ''N'' ''N'' ''S'' 500
                  (guest (Some ''alice'') (whole 200) (Some 1))],
       booking_ids = {Some 1}\<rparr>
      (Some '' Alice'')
     = Inr [(101, guest (Some ''alice'') (whole 200) (Some 1))]
   \<and> lower ascii ''alice'' \<noteq> lower ascii '' Alice''
   \<and> search_by_customer_name ascii
      \<lparr>rooms = [taken_room_of 101 ''N'' ''N'' ''S'' 500
                  (guest (Some ''alice'') (whole 200) (Some 1))],
       booking_ids = {Some 1}\<rparr>
      '' Alice''
     = []"
  by (simp add: api_search_customer_def search_by_customer_name_def name_matches_def
      string_defs example_defs)

text \<open>
  Claim C10, amended. In a state where the name of every guest is a string, the search
  returns, in the order of the room list, exactly the pairs of room number and customer
  of the rooms with status 1 whose customer's name equals, when case is ignored, the
  query stripped of surrounding whitespace; the match is on the whole name, not on a
  part of it. A query that is empty once stripped and lowered returns the empty list,
  even when a guest's name is empty, and an absent query is the empty query. Every pair
  of a returned list belongs to a room with status 1. The name of every guest is a string
  in every state reached from the empty registry by requests whose JSON check-ins carry a
  string as name, or no name.
\<close>

theorem search_matches_stripped_query:
  "(names_are_text s \<longrightarrow>
      api_search_customer py s (Some q) =
        Inr (if lower py (strip py q) = [] then []
             else search_by_customer_name py s (strip py q)))
   \<and> api_search_customer py s None = api_search_customer py s (Some [])
   \<and> (api_search_customer py s q' = Inr res \<and> (n, c) \<in> set res
        \<longrightarrow> (\<exists>r \<in> set (rooms s). status r = 1 \<and> room_number r = n \<and> cust r = Some c))
   \<and> ((\<forall>x \<in> set qs. text_name_request x) \<longrightarrow> names_are_text (run py init_state qs))"
proof (intro conjI impI)
  show "api_search_customer py s (Some q) =
        Inr (if lower py (strip py q) = [] then []
             else search_by_customer_name py s (strip py q))"
    if "names_are_text s"
    using that by (rule search_stripped)
  show "api_search_customer py s None = api_search_customer py s (Some [])"
    by (simp add: api_search_customer_def)
  show "\<exists>r \<in> set (rooms s). status r = 1 \<and> room_number r = n \<and> cust r = Some c"
    if "api_search_customer py s q' = Inr res \<and> (n, c) \<in> set res"
    using that search_occupied [of py s q' res n c] by blast
  show "names_are_text (run py init_state qs)"
    if "\<forall>x \<in> set qs. text_name_request x"
  proof -
    have "names_are_text init_state"
      by (simp add: names_are_text_def init_state_def)
    from this that show ?thesis by (rule run_names)
  qed
qed

theorem search_matches_stripped_query_witness:
  "api_search_customer ascii
      \<lparr>rooms = [taken_room_of 101 ''N'' ''N'' ''S'' 500 (guest (Some ''alice'') (whole 200) (Some 1)),
                taken_room_of 102 ''A'' ''S'' ''B'' 800 (guest (Some ''Alice Smith'') (whole 0) (Some 2)),
                free_room_of 103 ''N'' ''N'' ''S'' 300,
                taken_room_of 104 ''N'' ''N'' ''S'' 300 (guest (Some []) (whole 0) (Some 4))],
       booking_ids = {Some 1, Some 2, Some 4}\<rparr>
      (Some ''Alice'')
     = Inr [(101, guest (Some ''alice'') (whole 200) (Some 1))]
   \<and> api_search_customer ascii
      \<lparr>rooms = [taken_room_of 101 ''N'' ''N'' ''S'' 500 (guest (Some ''alice'') (whole 200) (Some 1)),
                taken_room_of 102 ''A'' ''S'' ''B'' 800 (guest (Some ''Alice Smith'') (whole 0) (Some 2)),
                free_room_of 103 ''N'' ''N'' ''S'' 300,
                taken_room_of 104 ''N'' ''N'' ''S'' 300 (guest (Some []) (whole 0) (Some 4))],
       booking_ids = {Some 1, Some 2, Some 4}\<rparr>
      (Some ''   '')
     = Inr []
   \<and> (\<exists>r \<in> set (rooms
        \<lparr>rooms = [taken_room_of 101 ''N'' ''N'' ''S'' 500 (guest (Some ''alice'') (whole 200) (Some 1)),
                  taken_room_of 102 ''A'' ''S'' ''B'' 800 (guest (Some ''Alice Smith'') (whole 0) (Some 2)),
                  free_room_of 103 ''N'' ''N'' ''S'' 300,
                  taken_room_of 104 ''N'' ''N'' ''S'' 300 (guest (Some []) (whole 0) (Some 4))],
         booking_ids = {Some 1, Some 2, Some 4}\<rparr>).
        status r = 1 \<and> room_number r = 101
        \<and> cust r = Some (guest (Some ''alice'') (whole 200) (Some 1)))
   \<and> names_are_text (run ascii init_state
        [ManageRooms (room_form_of 101 ''N'' ''N'' ''S'' 500),
         ApiCheckin (checkin_body_of 101 (Some 1) (Text ''alice'') (Given (whole 200)))])
   \<and> rooms (run ascii init_state
        [ManageRooms (room_form_of 101 ''N'' ''N'' ''S'' 500),
         ApiCheckin (checkin_body_of 101 (Some 1) (Text ''alice'') (Given (whole 200)))])
     = [taken_room_of 101 ''N'' ''N'' ''S'' 500 (guest (Some ''alice'') (whole 200) (Some 1))]"
proof -
  let ?st = "\<lparr>rooms = [taken_room_of 101 ''N'' ''N'' ''S'' 500 (guest (Some ''alice'') (whole 200) (Some 1)),
                taken_room_of 102 ''A'' ''S'' ''B'' 800 (guest (Some ''Alice Smith'') (whole 0) (Some 2)),
                free_room_of 103 ''N'' ''N'' ''S'' 300,
                taken_room_of 104 ''N'' ''N'' ''S'' 300 (guest (Some []) (whole 0) (Some 4))],
       booking_ids = {Some 1, Some 2, Some 4}\<rparr>"
  let ?g = "guest (Some ''alice'') (whole 200) (Some 1)"
  let ?qs = "[ManageRooms (room_form_of 101 ''N'' ''N'' ''S'' 500),
         ApiCheckin (checkin_body_of 101 (Some 1) (Text ''alice'') (Given (whole 200)))]"
  note t1 = search_matches_stripped_query
    [where s = ?st and py = ascii and q = "''Alice''" and q' = "Some ''Alice''"
       and res = "[(101, ?g)]" and n = 101 and c = ?g and qs = ?qs]
  note t2 = search_matches_stripped_query [where s = ?st and py = ascii and q = "''   ''"]
  have nm: "names_are_text ?st"
    by (simp add: names_are_text_def room_name_is_text_def example_defs)
  have s1: "strip ascii ''Alice'' = ''Alice''" "lower ascii ''Alice'' \<noteq> []"
    and s2: "lower ascii (strip ascii ''   '') = []"
    by (simp_all add: string_defs)
  have e: "search_by_customer_name ascii ?st ''Alice'' = [(101, ?g)]"
    by (simp add: search_by_customer_name_def name_matches_def string_defs example_defs)
  from t1 nm s1 e have 1: "api_search_customer ascii ?st (Some ''Alice'') = Inr [(101, ?g)]"
    by simp
  from t2 nm s2 have 2: "api_search_customer ascii ?st (Some ''   '') = Inr []"
    by simp
  from t1 1 have 3: "\<exists>r \<in> set (rooms ?st).
      status r = 1 \<and> room_number r = 101 \<and> cust r = Some ?g"
    by simp
  have "\<forall>x \<in> set ?qs. text_name_request x"
    by (simp add: example_defs)
  with t1 have 4: "names_are_text (run ascii init_state ?qs)"
    by blast
  have 5: "rooms (run ascii init_state ?qs) = [taken_room_of 101 ''N'' ''N'' ''S'' 500 ?g]"
    by (simp add: handler_defs string_defs example_defs)
  from 1 2 3 4 5 show ?thesis
    by (intro conjI)
qed

subsection \<open>Booking ids after a check-out\<close>

text \<open>As long as every check-in carries a booking id that is true as a Python value,
  \<open>booking_ids\<close> is exactly the set of the booking ids of the occupied rooms.\<close>

lemma occupied_list_update:
  assumes "i < length rs"
  shows "occupied_list (rs[i := x])
         = occupied_list (take i rs) @ room_booking_ids x @ occupied_list (drop (Suc i) rs)"
    and "occupied_list rs
         = occupied_list (take i rs) @ room_booking_ids (rs ! i) @ occupied_list (drop (Suc i) rs)"
proof -
  from assms have "rs[i := x] = take i rs @ x # drop (Suc i) rs"
    by (rule upd_conv_take_nth_drop)
  then show "occupied_list (rs[i := x])
         = occupied_list (take i rs) @ room_booking_ids x @ occupied_list (drop (Suc i) rs)"
    by (simp add: occupied_list_def)
  from assms have "rs = take i rs @ rs ! i # drop (Suc i) rs"
    by (rule id_take_nth_drop)
  then have "occupied_list rs = occupied_list (take i rs @ rs ! i # drop (Suc i) rs)"
    by simp
  then show "occupied_list rs
         = occupied_list (take i rs) @ room_booking_ids (rs ! i) @ occupied_list (drop (Suc i) rs)"
    by (simp add: occupied_list_def)
qed

lemma rooms_update_inv:
  assumes "\<forall>r \<in> set rs. P r" and "P x"
  shows "\<forall>r \<in> set (rs[i := x]). P r"
  using assms set_update_subset_insert [of rs i x] by blast

lemma inv_take_in:
  assumes "i < length rs" and "room_booking_ids (rs ! i) = []" and "room_booking_ids x = [b]"
    and "b \<notin> set (occupied_list rs)" and "distinct (occupied_list rs)"
  shows "set (occupied_list (rs[i := x])) = insert b (set (occupied_list rs))"
    and "distinct (occupied_list (rs[i := x]))"
  using assms occupied_list_update(1) [OF assms(1), of x] occupied_list_update(2) [OF assms(1)]
  by auto

lemma inv_take_out:
  assumes "i < length rs" and "room_booking_ids (rs ! i) = [b]" and "room_booking_ids x = []"
    and "distinct (occupied_list rs)"
  shows "set (occupied_list (rs[i := x])) = set (occupied_list rs) - {b}"
    and "distinct (occupied_list (rs[i := x]))"
  using assms occupied_list_update(1) [OF assms(1), of x] occupied_list_update(2) [OF assms(1)]
  by auto

lemma booking_inv_append:
  assumes "booking_state_inv s" and "status r = 0"
  shows "booking_state_inv (s\<lparr>rooms := rooms s @ [r]\<rparr>)"
  using assms
  by (auto simp: booking_state_inv_def occupied_list_def room_booking_ids_def split: option.splits)

lemma manage_rooms_booking: "booking_state_inv s \<Longrightarrow> booking_state_inv (snd (manage_rooms py s f))"
  by (simp add: manage_rooms_def Let_def booking_inv_append split: field.splits option.splits)

lemma api_rooms_booking: "booking_state_inv s \<Longrightarrow> booking_state_inv (snd (api_rooms s d))"
  by (simp add: api_rooms_def Let_def booking_inv_append split: field.splits option.splits)

lemma booking_inv_take:
  assumes inv: "booking_state_inv s" and i: "find_room_index (rooms s) n = Some i"
    and free: "status (rooms s ! i) \<noteq> 1" and new: "b \<notin> booking_ids s" and t: "truthy b"
    and c: "booking_id c = b"
  shows "booking_state_inv
           (s\<lparr>rooms := (rooms s)[i := (rooms s ! i)\<lparr>cust := Some c, status := 1\<rparr>],
              booking_ids := insert b (booking_ids s)\<rparr>)"
proof -
  let ?x = "(rooms s ! i)\<lparr>cust := Some c, status := 1\<rparr>"
  from i have len: "i < length (rooms s)"
    by (simp add: find_room_index_Some)
  from free have old: "room_booking_ids (rooms s ! i) = []"
    by (simp add: room_booking_ids_def split: option.splits)
  from c have x: "room_booking_ids ?x = [b]"
    by (simp add: room_booking_ids_def)
  from inv new have nin: "b \<notin> set (occupied_list (rooms s))"
    and dist: "distinct (occupied_list (rooms s))"
    by (simp_all add: booking_state_inv_def)
  have "\<forall>r \<in> set ((rooms s)[i := ?x]). (status r = 0 \<or> status r = 1)
            \<and> (status r = 1 \<longrightarrow> (\<exists>c. cust r = Some c \<and> truthy (booking_id c)))"
    using inv t c by (intro rooms_update_inv) (simp_all add: booking_state_inv_def)
  moreover from inv have "booking_ids s = set (occupied_list (rooms s))"
    by (simp add: booking_state_inv_def)
  ultimately show ?thesis
    using inv_take_in [OF len old x nin dist]
    by (simp add: booking_state_inv_def)
qed

lemma checkin_booking:
  assumes "booking_state_inv s" and "cf_booking_id f \<noteq> Given 0"
  shows "booking_state_inv (snd (checkin py s f))"
  using assms
  by (auto simp: checkin_def Let_def intro!: booking_inv_take
      split: field.splits option.splits)

lemma api_checkin_booking:
  assumes "booking_state_inv s" and "truthy (cb_booking_id d)"
  shows "booking_state_inv (snd (api_checkin s d))"
  using assms
  by (auto simp: api_checkin_def Let_def intro!: booking_inv_take
      split: field.splits option.splits)

lemma free_room_booking:
  assumes inv: "booking_state_inv s" and i: "find_room_index (rooms s) n = Some i"
    and occ: "status (rooms s ! i) \<noteq> 0"
  shows "booking_state_inv (free_room s i)"
proof -
  let ?x = "(rooms s ! i)\<lparr>cust := None, status := 0\<rparr>"
  from i have len: "i < length (rooms s)"
    by (simp add: find_room_index_Some)
  then have mem: "rooms s ! i \<in> set (rooms s)"
    by simp
  with inv occ obtain c where st: "status (rooms s ! i) = 1" and c: "cust (rooms s ! i) = Some c"
    and t: "truthy (booking_id c)"
    unfolding booking_state_inv_def by blast
  then have old: "room_booking_ids (rooms s ! i) = [booking_id c]"
    by (simp add: room_booking_ids_def)
  have x: "room_booking_ids ?x = []"
    by (simp add: room_booking_ids_def)
  from inv have dist: "distinct (occupied_list (rooms s))"
    and ids: "booking_ids s = set (occupied_list (rooms s))"
    by (simp_all add: booking_state_inv_def)
  have "\<forall>r \<in> set ((rooms s)[i := ?x]). (status r = 0 \<or> status r = 1)
            \<and> (status r = 1 \<longrightarrow> (\<exists>c. cust r = Some c \<and> truthy (booking_id c)))"
    using inv by (intro rooms_update_inv) (simp_all add: booking_state_inv_def)
  moreover have "free_room s i
      = s\<lparr>rooms := (rooms s)[i := ?x], booking_ids := booking_ids s - {booking_id c}\<rparr>"
    using c t by (simp add: free_room_def Let_def)
  ultimately show ?thesis
    using inv_take_out [OF len old x dist] ids
    by (simp add: booking_state_inv_def)
qed

lemma checkout_booking: "booking_state_inv s \<Longrightarrow> booking_state_inv (snd (checkout s f))"
  by (auto simp: checkout_def intro: free_room_booking split: field.splits option.splits)

lemma api_checkout_booking: "booking_state_inv s \<Longrightarrow> booking_state_inv (snd (api_checkout s d))"
  by (auto simp: api_checkout_def intro: free_room_booking split: field.splits option.splits)

lemma handle_booking:
  "booking_state_inv s \<Longrightarrow> truthy_request q \<Longrightarrow> booking_state_inv (handle py s q)"
  by (cases q) (simp_all add: manage_rooms_booking checkin_booking checkout_booking
      api_rooms_booking api_checkin_booking api_checkout_booking)

lemma run_booking:
  "booking_state_inv s \<Longrightarrow> \<forall>q \<in> set qs. truthy_request q \<Longrightarrow> booking_state_inv (run py s qs)"
  by (induction qs arbitrary: s) (simp_all add: handle_booking)

lemma booking_ids_exact_for_true_ids:
  assumes "\<forall>q \<in> set qs. truthy_request q"
  shows "booking_inv (run py init_state qs)"
proof -
  have "booking_state_inv init_state"
    by (simp add: booking_state_inv_def init_state_def occupied_list_def)
  with assms have "booking_state_inv (run py init_state qs)"
    by (simp add: run_booking)
  then show ?thesis
    by (simp add: booking_inv_def booking_state_inv_def occupied_booking_ids_def)
qed

text \<open>
  Claim C1 on the code: both check-out handlers discard the booking id only when it is
  true as a Python value, so the id 0 stays in the in-use set after its room is checked
  out, and so does the absent id of a JSON check-in. Here room 101 is checked in with
  booking id 0 and checked out: \<open>booking_ids\<close> is then \<open>{0}\<close> although no room is
  occupied, and a later check-in with booking id 0 is refused.
\<close>

theorem booking_id_zero_stays_in_use:
  "checkin ascii \<lparr>rooms = [free_room_of 101 ''N'' ''N'' ''S'' 500], booking_ids = {}\<rparr>
      (checkin_form_of 101 0 ''Alice'' (Given (whole 200)))
     = (Inr (),
        \<lparr>rooms = [taken_room_of 101 ''N'' ''N'' ''S'' 500 (guest (Some ''Alice'') (whole 200) (Some 0))],
         booking_ids = {Some 0}\<rparr>)
   \<and> checkout
        \<lparr>rooms = [taken_room_of 101 ''N'' ''N'' ''S'' 500 (guest (Some ''Alice'') (whole 200) (Some 0))],
         booking_ids = {Some 0}\<rparr>
        (checkout_form_of 101 3)
     = (Inr (101, \<lparr>bill = 1500, advance = whole 200, payable = whole 1300\<rparr>),
        \<lparr>rooms = [free_room_of 101 ''N'' ''N'' ''S'' 500], booking_ids = {Some 0}\<rparr>)
   \<and> api_checkout
        \<lparr>rooms = [taken_room_of 101 ''N'' ''N'' ''S'' 500 (guest (Some ''Alice'') (whole 200) (Some 0))],
         booking_ids = {Some 0}\<rparr>
        (checkout_body_of 101 3)
     = (Inr \<lparr>bill = 1500, advance = whole 200, payable = whole 1300\<rparr>,
        \<lparr>rooms = [free_room_of 101 ''N'' ''N'' ''S'' 500], booking_ids = {Some 0}\<rparr>)
   \<and> occupied_booking_ids
        \<lparr>rooms = [free_room_of 101 ''N'' ''N'' ''S'' 500], booking_ids = {Some 0}\<rparr> = {}
   \<and> \<not> booking_inv \<lparr>rooms = [free_room_of 101 ''N'' ''N'' ''S'' 500], booking_ids = {Some 0}\<rparr>
   \<and> checkin ascii \<lparr>rooms = [free_room_of 101 ''N'' ''N'' ''S'' 500], booking_ids = {Some 0}\<rparr>
        (checkin_form_of 101 0 ''Bob'' Missing)
     = (Inl DuplicateBookingIdError,
        \<lparr>rooms = [free_room_of 101 ''N'' ''N'' ''S'' 500], booking_ids = {Some 0}\<rparr>)
   \<and> run ascii init_state
        [ApiRooms (room_body_of 101 ''N'' ''N'' ''S'' 500),
         ApiCheckin (checkin_body_of 101 None (Text ''Alice'') (Given (whole 200))),
         ApiCheckout (checkout_body_of 101 3)]
     = \<lparr>rooms = [free_room_of 101 ''N'' ''N'' ''S'' 500], booking_ids = {None}\<rparr>"
proof (intro conjI)
  let ?free = "\<lparr>rooms = [free_room_of 101 ''N'' ''N'' ''S'' 500], booking_ids = {}\<rparr>"
  let ?taken = "\<lparr>rooms = [taken_room_of 101 ''N'' ''N'' ''S'' 500 (guest (Some ''Alice'') (whole 200) (Some 0))],
                 booking_ids = {Some 0}\<rparr>"
  let ?after = "\<lparr>rooms = [free_room_of 101 ''N'' ''N'' ''S'' 500], booking_ids = {Some 0}\<rparr>"
  show "checkin ascii ?free (checkin_form_of 101 0 ''Alice'' (Given (whole 200))) = (Inr (), ?taken)"
    by (simp add: handler_defs float_eval string_defs example_defs)
  show "checkout ?taken (checkout_form_of 101 3)
        = (Inr (101, \<lparr>bill = 1500, advance = whole 200, payable = whole 1300\<rparr>), ?after)"
    by (simp add: handler_defs float_eval example_defs)
  show "api_checkout ?taken (checkout_body_of 101 3)
        = (Inr \<lparr>bill = 1500, advance = whole 200, payable = whole 1300\<rparr>, ?after)"
    by (simp add: handler_defs float_eval example_defs)
  show "occupied_booking_ids ?after = {}"
    by (simp add: occupied_booking_ids_def occupied_list_def room_booking_ids_def example_defs)
  show "\<not> booking_inv ?after"
    by (simp add: booking_inv_def occupied_booking_ids_def occupied_list_def
        room_booking_ids_def example_defs)
  show "checkin ascii ?after (checkin_form_of 101 0 ''Bob'' Missing)
        = (Inl DuplicateBookingIdError, ?after)"
    by (simp add: handler_defs float_eval example_defs)
  show "run ascii init_state
        [ApiRooms (room_body_of 101 ''N'' ''N'' ''S'' 500),
         ApiCheckin (checkin_body_of 101 None (Text ''Alice'') (Given (whole 200))),
         ApiCheckout (checkout_body_of 101 3)]
     = \<lparr>rooms = [free_room_of 101 ''N'' ''N'' ''S'' 500], booking_ids = {None}\<rparr>"
    by (simp add: handler_defs float_eval example_defs)
qed

subsection \<open>An advance that is not a number\<close>

text \<open>What a check-in into an available room with a fresh booking id stores, on each
  path: the form handler strips the text fields and turns a missing or unparseable advance
  into 0; the JSON handler takes the text fields as they are, turns a missing advance into
  0 and fails on an unparseable one.\<close>

lemma checkin_stores_customer:
  assumes "cf_room_number f = Given n" and "find_room_index (rooms s) n = Some i"
    and "status (rooms s ! i) \<noteq> 1" and "cf_booking_id f = Given b"
    and "Some b \<notin> booking_ids s"
  shows "checkin py s f =
     (Inr (),
      s\<lparr>rooms := (rooms s)[i := (rooms s ! i)
           \<lparr>cust := Some \<lparr>name = Some (strip py (get_default (cf_name f) '''')),
                          address = Some (strip py (get_default (cf_address f) '''')),
                          phone = Some (strip py (get_default (cf_phone f) '''')),
                          from_date = Some (strip py (get_default (cf_from_date f) '''')),
                          to_date = Some (strip py (get_default (cf_to_date f) '''')),
                          payment_advance = (case cf_advance f of Given a \<Rightarrow> a | _ \<Rightarrow> Finite 0),
                          booking_id = Some b\<rparr>,
            status := 1\<rparr>],
        booking_ids := insert (Some b) (booking_ids s)\<rparr>)"
  using assms by (cases "cf_advance f") (simp_all add: checkin_def Let_def)

lemma api_checkin_stores_customer:
  assumes "cb_room_number d = Some n" and "find_room_index (rooms s) n = Some i"
    and "status (rooms s ! i) \<noteq> 1" and "cb_booking_id d \<notin> booking_ids s"
  shows "api_checkin s d =
     (case cb_payment_advance d of
        Malformed \<Rightarrow> (Inl UncaughtException, s)
      | _ \<Rightarrow>
        (Inr (),
         s\<lparr>rooms := (rooms s)[i := (rooms s ! i)
              \<lparr>cust := Some \<lparr>name = json_get (cb_name d) '''',
                             address = json_get (cb_address d) '''',
                             phone = json_get (cb_phone d) '''',
                             from_date = json_get (cb_from_date d) '''',
                             to_date = json_get (cb_to_date d) '''',
                             payment_advance =
                               (case cb_payment_advance d of Given a \<Rightarrow> a | _ \<Rightarrow> Finite 0),
                             booking_id = cb_booking_id d\<rparr>,
               status := 1\<rparr>],
           booking_ids := insert (cb_booking_id d) (booking_ids s)\<rparr>))"
  using assms by (cases "cb_payment_advance d") (simp_all add: api_checkin_def Let_def)

text \<open>
  Claim C9 on the code: the form handler catches the \<open>ValueError\<close> of \<open>float()\<close> and
  stores the advance 0, and both handlers store 0 for an absent advance; the JSON handler
  calls \<open>float()\<close> outside any \<open>try\<close>, so an advance that is not a number ends the
  request with the exception and nobody is checked in.
\<close>

theorem api_checkin_unparseable_advance:
  "api_checkin \<lparr>rooms = [free_room_of 101 ''N'' ''N'' ''S'' 500], booking_ids = {}\<rparr>
      (checkin_body_of 101 (Some 1) (Text ''Alice'') Malformed)
     = (Inl UncaughtException,
        \<lparr>rooms = [free_room_of 101 ''N'' ''N'' ''S'' 500], booking_ids = {}\<rparr>)
   \<and> checkin ascii \<lparr>rooms = [free_room_of 101 ''N'' ''N'' ''S'' 500], booking_ids = {}\<rparr>
      (checkin_form_of 101 1 ''Alice'' Malformed)
     = (Inr (),
        \<lparr>rooms = [taken_room_of 101 ''N'' ''N'' ''S'' 500 (guest (Some ''Alice'') (whole 0) (Some 1))],
         booking_ids = {Some 1}\<rparr>)
   \<and> checkin ascii \<lparr>rooms = [free_room_of 101 ''N'' ''N'' ''S'' 500], booking_ids = {}\<rparr>
      (checkin_form_of 101 1 ''Alice'' Missing)
     = (Inr (),
        \<lparr>rooms = [taken_room_of 101 ''N'' ''N'' ''S'' 500 (guest (Some ''Alice'') (whole 0) (Some 1))],
         booking_ids = {Some 1}\<rparr>)
   \<and> api_checkin \<lparr>rooms = [free_room_of 101 ''N'' ''N'' ''S'' 500], booking_ids = {}\<rparr>
      (checkin_body_of 101 (Some 1) (Text ''Alice'') Missing)
     = (Inr (),
        \<lparr>rooms = [taken_room_of 101 ''N'' ''N'' ''S'' 500 (guest (Some ''Alice'') (whole 0) (Some 1))],
         booking_ids = {Some 1}\<rparr>)"
  by (simp add: handler_defs float_eval string_defs example_defs whole_0)

subsection \<open>The bill of a check-out\<close>

lemma checkout_occupied:
  assumes "unique_numbers s" and "r \<in> set (rooms s)" and "status r = 1"
    and "of_room_number f = Given (room_number r)" and "of_days f = Given days"
  shows "checkout s f =
     (case bill_of r days of
        None \<Rightarrow> (Inl UncaughtException, s)
      | Some b \<Rightarrow> (Inr (room_number r, b),
                   free_room s (the (find_room_index (rooms s) (room_number r)))))"
proof -
  from assms(1,2) obtain i where "find_room_index (rooms s) (room_number r) = Some i"
    and "rooms s ! i = r"
    unfolding unique_numbers_def by (blast dest: find_room_index_member)
  with assms(3-5) show ?thesis
    by (simp add: checkout_def split: option.split)
qed

lemma api_checkout_occupied:
  assumes "unique_numbers s" and "r \<in> set (rooms s)" and "status r = 1"
    and "ob_room_number d = Some (room_number r)"
    and "convert_default (ob_days d) 0 = Some days"
  shows "api_checkout s d =
     (case bill_of r days of
        None \<Rightarrow> (Inl UncaughtException, s)
      | Some b \<Rightarrow> (Inr b, free_room s (the (find_room_index (rooms s) (room_number r)))))"
proof -
  from assms(1,2) obtain i where "find_room_index (rooms s) (room_number r) = Some i"
    and "rooms s ! i = r"
    unfolding unique_numbers_def by (blast dest: find_room_index_member)
  with assms(3-5) show ?thesis
    by (simp add: api_checkout_def split: option.split)
qed

lemma bill_of_converted:
  "float_of_int (days * rent r) = Some fb \<Longrightarrow>
   bill_of r days =
     Some \<lparr>bill = days * rent r,
           advance = (case cust r of None \<Rightarrow> Finite 0 | Some c \<Rightarrow> payment_advance c),
           payable = float_sub fb
                       (case cust r of None \<Rightarrow> Finite 0 | Some c \<Rightarrow> payment_advance c)\<rparr>"
  by (simp add: bill_of_def int_sub_float_def Let_def)

lemma bill_of_overflow: "float_of_int (days * rent r) = None \<Longrightarrow> bill_of r days = None"
  by (simp add: bill_of_def int_sub_float_def Let_def)

lemma payable_negative:
  assumes "\<bar>b\<bar> \<le> 2 ^ 53"
  shows "float_lt (float_sub (whole b) x) (Finite 0) = float_gt_int x b"
  by (simp only: float_sub_neg float_gt_int_whole)

lemma float_gt_int_tie: "float_gt_int (whole 9007199254740996) 9007199254740995"
  by (simp only: float_gt_int_whole) (simp add: whole_def)

text \<open>Claim C4 does not hold as stated. The bill is a Python integer and the advance a
  float, so \<open>bill - advance\<close> first converts the bill to a float. With a rent of 500 and
  \<open>10 ^ 306\<close> days the conversion raises OverflowError: the check-out returns no bill and
  the room stays occupied. With a bill of 9007199254740995 and an advance of
  9007199254740996.0 the bill is rounded to the advance: the payable amount is 0.0, which
  is not negative, although the advance exceeds the bill.\<close>

theorem checkout_bill_counterexample:
  "checkout
     \<lparr>rooms = [taken_room_of 101 ''A'' ''S'' ''B'' 500
                 (guest (Some ''Asha'') (whole 200) (Some 7))],
      booking_ids = {Some 7}\<rparr>
     (checkout_form_of 101 (10 ^ 306)) =
   (Inl UncaughtException,
    \<lparr>rooms = [taken_room_of 101 ''A'' ''S'' ''B'' 500
                 (guest (Some ''Asha'') (whole 200) (Some 7))],
      booking_ids = {Some 7}\<rparr>)
   \<and> fst (checkout
          \<lparr>rooms = [taken_room_of 101 ''A'' ''S'' ''B'' 1
                      (guest (Some ''Asha'') (whole 9007199254740996) (Some 7))],
           booking_ids = {Some 7}\<rparr>
          (checkout_form_of 101 9007199254740995)) =
       Inr (101, \<lparr>bill = 9007199254740995, advance = whole 9007199254740996,
                  payable = Finite 0\<rparr>)
   \<and> float_gt_int (whole 9007199254740996) 9007199254740995
   \<and> \<not> float_lt (Finite 0) (Finite 0)"
proof -
  let ?r = "taken_room_of 101 ''A'' ''S'' ''B'' 500 (guest (Some ''Asha'') (whole 200) (Some 7))"
  let ?before = "\<lparr>rooms = [?r], booking_ids = {Some 7}\<rparr>"
  let ?t = "taken_room_of 101 ''A'' ''S'' ''B'' 1
              (guest (Some ''Asha'') (whole 9007199254740996) (Some 7))"
  let ?tie = "\<lparr>rooms = [?t], booking_ids = {Some 7}\<rparr>"
  have "float_of_int (10 ^ 306 * rent ?r) = None"
    by (rule float_of_int_overflow) (simp add: taken_room_of_def)
  hence "bill_of ?r (10 ^ 306) = None"
    by (rule bill_of_overflow)
  moreover have "unique_numbers ?before" and "status ?r = 1" and "room_number ?r = 101"
    by (simp_all add: unique_numbers_def taken_room_of_def)
  ultimately have one: "checkout ?before (checkout_form_of 101 (10 ^ 306)) =
      (Inl UncaughtException, ?before)"
    using checkout_occupied [of ?before ?r "checkout_form_of 101 (10 ^ 306)" "10 ^ 306"]
    by (simp add: checkout_form_of_def)
  have "float_of_int (9007199254740995 * rent ?t) = Some (whole 9007199254740996)"
    by (simp add: taken_room_of_def float_of_int_tie)
  from bill_of_converted [OF this]
  have "bill_of ?t 9007199254740995 =
      Some \<lparr>bill = 9007199254740995, advance = whole 9007199254740996,
            payable = float_sub (whole 9007199254740996) (whole 9007199254740996)\<rparr>"
    by (simp add: taken_room_of_def guest_def)
  moreover have "float_sub (whole 9007199254740996) (whole 9007199254740996) = Finite 0"
    by (simp add: float_sub_whole whole_0)
  moreover have "unique_numbers ?tie" and "status ?t = 1" and "room_number ?t = 101"
    by (simp_all add: unique_numbers_def taken_room_of_def)
  ultimately have two: "fst (checkout ?tie (checkout_form_of 101 9007199254740995)) =
      Inr (101, \<lparr>bill = 9007199254740995, advance = whole 9007199254740996,
                 payable = Finite 0\<rparr>)"
    using checkout_occupied [of ?tie ?t "checkout_form_of 101 9007199254740995"
        9007199254740995]
    by (simp add: checkout_form_of_def)
  show ?thesis
    using one two float_gt_int_tie by simp
qed

text \<open>Claim C4, amended: for every occupied room of a registry with distinct room numbers
  and every integer \<open>days\<close>, negative ones included, both check-out handlers compute
  \<open>bill = days * rent\<close> and take as advance the customer's payment_advance (0.0 if no
  customer is attached). If the bill converts to a float \<open>fb\<close>, they return the bill, the
  advance and \<open>payable = fb - advance\<close> in float arithmetic, not clamped at zero, and the
  payable amount is negative exactly when the advance exceeds \<open>fb\<close>. If the bill is too
  large to convert, the handler raises and the registry is unchanged. A bill of absolute
  value at most \<open>2 ^ 53\<close> converts to itself, so for such a bill the payable amount is
  negative exactly when the advance exceeds the bill.\<close>

theorem checkout_bill:
  "unique_numbers s \<and> r \<in> set (rooms s) \<and> status r = 1 \<longrightarrow>
     (of_room_number f = Given (room_number r) \<and> of_days f = Given days
        \<and> float_of_int (days * rent r) = Some fb \<longrightarrow>
        fst (checkout s f) =
          Inr (room_number r,
               \<lparr>bill = days * rent r,
                advance = (case cust r of None \<Rightarrow> Finite 0 | Some c \<Rightarrow> payment_advance c),
                payable = float_sub fb
                   (case cust r of None \<Rightarrow> Finite 0 | Some c \<Rightarrow> payment_advance c)\<rparr>))
     \<and> (ob_room_number d = Some (room_number r) \<and> convert_default (ob_days d) 0 = Some days'
        \<and> float_of_int (days' * rent r) = Some fb' \<longrightarrow>
        fst (api_checkout s d) =
          Inr \<lparr>bill = days' * rent r,
               advance = (case cust r of None \<Rightarrow> Finite 0 | Some c \<Rightarrow> payment_advance c),
               payable = float_sub fb'
                  (case cust r of None \<Rightarrow> Finite 0 | Some c \<Rightarrow> payment_advance c)\<rparr>)
     \<and> (of_room_number f = Given (room_number r) \<and> of_days f = Given days
        \<and> float_of_int (days * rent r) = None \<longrightarrow>
        checkout s f = (Inl UncaughtException, s))
     \<and> (ob_room_number d = Some (room_number r) \<and> convert_default (ob_days d) 0 = Some days'
        \<and> float_of_int (days' * rent r) = None \<longrightarrow>
        api_checkout s d = (Inl UncaughtException, s))
     \<and> float_lt (float_sub x adv) (Finite 0) = float_lt x adv
     \<and> (\<bar>days * rent r\<bar> \<le> 2 ^ 53 \<longrightarrow>
          float_of_int (days * rent r) = Some (whole (days * rent r))
          \<and> float_lt (float_sub (whole (days * rent r)) adv) (Finite 0) =
              float_gt_int adv (days * rent r))"
proof (intro impI conjI)
  assume a: "unique_numbers s \<and> r \<in> set (rooms s) \<and> status r = 1"
    and b: "of_room_number f = Given (room_number r) \<and> of_days f = Given days
        \<and> float_of_int (days * rent r) = Some fb"
  from a b show "fst (checkout s f) =
          Inr (room_number r,
               \<lparr>bill = days * rent r,
                advance = (case cust r of None \<Rightarrow> Finite 0 | Some c \<Rightarrow> payment_advance c),
                payable = float_sub fb
                   (case cust r of None \<Rightarrow> Finite 0 | Some c \<Rightarrow> payment_advance c)\<rparr>)"
    by (simp add: checkout_occupied [of s r f days] bill_of_converted [of days r fb])
next
  assume a: "unique_numbers s \<and> r \<in> set (rooms s) \<and> status r = 1"
    and b: "ob_room_number d = Some (room_number r) \<and> convert_default (ob_days d) 0 = Some days'
        \<and> float_of_int (days' * rent r) = Some fb'"
  from a b show "fst (api_checkout s d) =
          Inr \<lparr>bill = days' * rent r,
               advance = (case cust r of None \<Rightarrow> Finite 0 | Some c \<Rightarrow> payment_advance c),
               payable = float_sub fb'
                  (case cust r of None \<Rightarrow> Finite 0 | Some c \<Rightarrow> payment_advance c)\<rparr>"
    by (simp add: api_checkout_occupied [of s r d days'] bill_of_converted [of days' r fb'])
next
  assume a: "unique_numbers s \<and> r \<in> set (rooms s) \<and> status r = 1"
    and b: "of_room_number f = Given (room_number r) \<and> of_days f = Given days
        \<and> float_of_int (days * rent r) = None"
  from a b show "checkout s f = (Inl UncaughtException, s)"
    by (simp add: checkout_occupied [of s r f days] bill_of_overflow [of days r])
next
  assume a: "unique_numbers s \<and> r \<in> set (rooms s) \<and> status r = 1"
    and b: "ob_room_number d = Some (room_number r) \<and> convert_default (ob_days d) 0 = Some days'
        \<and> float_of_int (days' * rent r) = None"
  from a b show "api_checkout s d = (Inl UncaughtException, s)"
    by (simp add: api_checkout_occupied [of s r d days'] bill_of_overflow [of days' r])
next
  show "float_lt (float_sub x adv) (Finite 0) = float_lt x adv"
    by (rule float_sub_neg)
next
  assume "\<bar>days * rent r\<bar> \<le> 2 ^ 53"
  then show "float_of_int (days * rent r) = Some (whole (days * rent r))"
    by (rule float_of_int_whole)
next
  assume "\<bar>days * rent r\<bar> \<le> 2 ^ 53"
  then show "float_lt (float_sub (whole (days * rent r)) adv) (Finite 0) =
      float_gt_int adv (days * rent r)"
    by (rule payable_negative)
qed

theorem checkout_bill_witness:
  "fst (checkout
          \<lparr>rooms = [taken_room_of 101 ''A'' ''S'' ''B'' 500
                      (guest (Some ''Asha'') (whole 200) (Some 7))],
           booking_ids = {Some 7}\<rparr>
          (checkout_form_of 101 (- 2))) =
     Inr (101, \<lparr>bill = - 1000, advance = whole 200, payable = whole (- 1200)\<rparr>)
   \<and> fst (api_checkout
          \<lparr>rooms = [taken_room_of 101 ''A'' ''S'' ''B'' 500
                      (guest (Some ''Asha'') (whole 200) (Some 7))],
           booking_ids = {Some 7}\<rparr>
          \<lparr>ob_room_number = Some 101, ob_days = Missing\<rparr>) =
     Inr \<lparr>bill = 0, advance = whole 200, payable = whole (- 200)\<rparr>
   \<and> float_lt (whole (- 1200)) (Finite 0)
   \<and> float_gt_int (whole 200) (- 1000)
   \<and> api_checkout
        \<lparr>rooms = [taken_room_of 101 ''A'' ''S'' ''B'' 500
                    (guest (Some ''Asha'') (whole 200) (Some 7))],
         booking_ids = {Some 7}\<rparr>
        (checkout_body_of 101 (10 ^ 306)) =
     (Inl UncaughtException,
      \<lparr>rooms = [taken_room_of 101 ''A'' ''S'' ''B'' 500
                  (guest (Some ''Asha'') (whole 200) (Some 7))],
       booking_ids = {Some 7}\<rparr>)"
proof -
  let ?r = "taken_room_of 101 ''A'' ''S'' ''B'' 500 (guest (Some ''Asha'') (whole 200) (Some 7))"
  let ?before = "\<lparr>rooms = [?r], booking_ids = {Some 7}\<rparr>"
  have r: "unique_numbers ?before" "?r \<in> set (rooms ?before)" "status ?r = 1"
    "room_number ?r = 101" "rent ?r = 500" "cust ?r = Some (guest (Some ''Asha'') (whole 200) (Some 7))"
    "payment_advance (guest (Some ''Asha'') (whole 200) (Some 7)) = whole 200"
    by (simp_all add: unique_numbers_def taken_room_of_def guest_def)
  have c: "float_of_int (- 1000) = Some (whole (- 1000))" "float_of_int 0 = Some (whole 0)"
    by (simp_all add: float_of_int_whole)
  have o: "float_of_int (10 ^ 306 * 500) = None"
    by (rule float_of_int_overflow) simp
  have s: "float_sub (whole (- 1000)) (whole 200) = whole (- 1200)"
    "float_sub (whole 0) (whole 200) = whole (- 200)"
    by (simp_all add: float_sub_whole)
  have l: "float_lt (whole (- 1000)) (whole 200)"
    by (simp add: whole_def)
  have "fst (checkout ?before (checkout_form_of 101 (- 2))) =
      Inr (101, \<lparr>bill = - 1000, advance = whole 200, payable = whole (- 1200)\<rparr>)"
    and "fst (api_checkout ?before \<lparr>ob_room_number = Some 101, ob_days = Missing\<rparr>) =
      Inr \<lparr>bill = 0, advance = whole 200, payable = whole (- 200)\<rparr>"
    and "float_lt (whole (- 1200)) (Finite 0)"
    and "float_gt_int (whole 200) (- 1000)"
    using checkout_bill [of ?before ?r "checkout_form_of 101 (- 2)" "- 2" "whole (- 1000)"
        "\<lparr>ob_room_number = Some 101, ob_days = Missing\<rparr>" 0 "whole 0"
        "whole (- 1000)" "whole 200"]
    by (auto simp add: r c s l checkout_form_of_def)
  moreover have "api_checkout ?before (checkout_body_of 101 (10 ^ 306)) =
      (Inl UncaughtException, ?before)"
    using checkout_bill [of ?before ?r "checkout_form_of 101 (10 ^ 306)" "10 ^ 306" "whole 0"
        "checkout_body_of 101 (10 ^ 306)" "10 ^ 306" "whole 0" "whole 0" "whole 0"]
    by (simp add: r o [simplified] checkout_body_of_def)
  ultimately show ?thesis
    by (simp only: simp_thms)
qed

end
